theory Spec2Isabelle
  imports Main
begin

section \<open>Tokens and syntax trees (compiler/tokens.py, compiler/parser.py)\<close>

text \<open>
  A token value is whatever the lexers store in \<^verbatim>\<open>Token.value\<close>: \<^verbatim>\<open>None\<close>, an
  \<^verbatim>\<open>int\<close>, a \<^verbatim>\<open>float\<close> (a finite double, written mantissa and binary exponent), a
  \<^verbatim>\<open>str\<close> or a \<^verbatim>\<open>bool\<close>.
\<close>

datatype pyval = NoneV | IntV int | FloatV int int | StrV string | BoolV bool

text \<open>\<^verbatim>\<open>Token(type, value=None, pos=None)\<close>.\<close>

datatype Token = Token (ttype: string) (tvalue: pyval) (tpos: "(nat \<times> nat) option")

text \<open>
  The dataclasses of parser.py. \<^verbatim>\<open>Literal\<close> has the single field \<^verbatim>\<open>value\<close>.
  The parser wraps a declaration statement in the tuple \<^verbatim>\<open>("Var", VarDecl)\<close> and a
  nested block in \<^verbatim>\<open>("Block", [...])\<close>; these are the constructors \<open>Var\<close> and
  \<open>Block\<close>. The initialiser of a \<^verbatim>\<open>for\<close> is a bare \<^verbatim>\<open>VarDecl\<close> or an
  \<^verbatim>\<open>ExprStmt\<close>.
\<close>

datatype expr =
    Binary string expr expr
  | Unary string expr
  | Literal pyval
  | Identifier string
  | Call expr "expr list"

datatype Param = Param (p_type_tok: string) (p_name: string)

datatype VarDecl = VarDecl (v_type_tok: string) (v_name: string) (v_expr: "expr option")

datatype for_init = InitVarDecl VarDecl | InitExprStmt expr

datatype stmt =
    Var VarDecl
  | Block "stmt list"
  | ExprStmt expr
  | ReturnStmt "expr option"
  | IfStmt expr "stmt list" "stmt list"
  | ForStmt "for_init option" "expr option" "expr option" "stmt list"
  | BreakStmt

datatype FnDecl =
  FnDecl (f_type_tok: string) (f_name: string) (f_params: "Param list") (f_body: "stmt list")

text \<open>
  An element of \<^verbatim>\<open>Program.items\<close>: a \<^verbatim>\<open>FnDecl\<close>, a bare \<^verbatim>\<open>VarDecl\<close> object
  (the parser never builds one at this place, but \<^verbatim>\<open>TypeChecker.check_item\<close> tests
  for it), or a statement.
\<close>

datatype item = FnDeclItem FnDecl | VarDeclItem VarDecl | StmtItem stmt

datatype Program = Program (items: "item list")

section \<open>Parsing (compiler/parser.py)\<close>

text \<open>
  The parse errors, with the data their messages carry: \<open>FailedToFindToken\<close> the
  expected kind, the kind found and its position, \<open>ExpectedIdentifier\<close> the position,
  \<open>ExpectedExpr\<close> the kind found and its position.
\<close>

datatype ParseError =
    UnexpectedEOF
  | FailedToFindToken string string "(nat \<times> nat) option"
  | ExpectedTypeToken
  | ExpectedIdentifier "(nat \<times> nat) option"
  | UnexpectedToken
  | ExpectedExpr string "(nat \<times> nat) option"

text \<open>
  The parser object is the token list, which never changes, and the position
  \<^verbatim>\<open>self.pos\<close>. A method returns its value with the new position, or raises, or, in
  this model, runs out of fuel: the loops and the recursion of the parser are bounded by
  a fuel argument, and \<open>OutOfFuel\<close> stands for a computation that has not finished
  within it.
\<close>

datatype 'a presult = Ok 'a nat | Raise ParseError | OutOfFuel

definition pbind :: "'a presult \<Rightarrow> ('a \<Rightarrow> nat \<Rightarrow> 'b presult) \<Rightarrow> 'b presult" where
  "pbind r f = (case r of Ok v p \<Rightarrow> f v p | Raise e \<Rightarrow> Raise e | OutOfFuel \<Rightarrow> OutOfFuel)"



definition peek :: "Token list \<Rightarrow> nat \<Rightarrow> Token" where
  "peek toks pos = (if pos \<ge> length toks then Token ''EOF'' NoneV None else toks ! pos)"

definition next_tok :: "Token list \<Rightarrow> nat \<Rightarrow> Token presult" where
  "next_tok toks pos =
     (let tok = peek toks pos
      in if ttype tok = ''EOF'' then Raise UnexpectedEOF else Ok tok (pos + 1))"

definition match_tok :: "string list \<Rightarrow> Token list \<Rightarrow> nat \<Rightarrow> Token option presult" where
  "match_tok types toks pos =
     (if ttype (peek toks pos) \<in> set types
      then pbind (next_tok toks pos) (\<lambda>tok p. Ok (Some tok) p)
      else Ok None pos)"

definition expect :: "string \<Rightarrow> Token list \<Rightarrow> nat \<Rightarrow> Token presult" where
  "expect ty toks pos =
     (let tok = peek toks pos
      in if ttype tok = ty then next_tok toks pos
         else Raise (FailedToFindToken ty (ttype tok) (tpos tok)))"

text \<open>
  The value of an \<^verbatim>\<open>Identifier\<close> token is the \<^verbatim>\<open>str\<close> both lexers put there; it
  becomes the name in the tree.
\<close>

fun str_of :: "pyval \<Rightarrow> string" where
  "str_of (StrV s) = s"
| "str_of v = []"

definition expect_identifier :: "Token list \<Rightarrow> nat \<Rightarrow> string presult" where
  "expect_identifier toks pos =
     (let tok = peek toks pos
      in if ttype tok = ''Identifier''
         then pbind (next_tok toks pos) (\<lambda>t p. Ok (str_of (tvalue t)) p)
         else Raise (ExpectedIdentifier (tpos tok)))"

definition type_kinds :: "string list" where
  "type_kinds = [''Int'', ''Float'', ''Bool'', ''String'']"

definition terminators :: "string list" where
  "terminators = [''Dot'', ''Semicolon'']"

text \<open>
  The expression methods call one another in a cycle that closes at
  \<^verbatim>\<open>self.parse_expr()\<close>. In the model every method below \<^verbatim>\<open>parse_expr\<close> takes that
  method as its first argument \<open>pe\<close>, and \<open>parse_expr\<close> passes itself with one unit
  of fuel less. The second argument \<open>n\<close> is the fuel of the method's own loop or
  recursion. A \<^verbatim>\<open>while\<close> loop is the function named \<open>..._loop\<close> after its method.
\<close>

type_synonym 'a parser = "Token list \<Rightarrow> nat \<Rightarrow> 'a presult"

definition parse_primary :: "expr parser \<Rightarrow> expr parser" where
  "parse_primary pe toks pos =
     (let tok = peek toks pos in
      if ttype tok = ''IntLit'' then pbind (next_tok toks pos) (\<lambda>t p. Ok (Literal (tvalue t)) p)
      else if ttype tok = ''FloatLit'' then pbind (next_tok toks pos) (\<lambda>t p. Ok (Literal (tvalue t)) p)
      else if ttype tok = ''StringLit'' then pbind (next_tok toks pos) (\<lambda>t p. Ok (Literal (tvalue t)) p)
      else if ttype tok = ''BoolLit'' then pbind (next_tok toks pos) (\<lambda>t p. Ok (Literal (tvalue t)) p)
      else if ttype tok = ''Identifier''
        then pbind (next_tok toks pos) (\<lambda>t p. Ok (Identifier (str_of (tvalue t))) p)
      else if ttype tok = ''ParenL''
        then pbind (next_tok toks pos) (\<lambda>t p.
             pbind (pe toks p) (\<lambda>node p1.
             pbind (expect ''ParenR'' toks p1) (\<lambda>t2 p2. Ok node p2)))
      else Raise (ExpectedExpr (ttype tok) (tpos tok)))"

primrec args_loop :: "expr parser \<Rightarrow> nat \<Rightarrow> Token list \<Rightarrow> nat \<Rightarrow> expr list \<Rightarrow> expr list presult" where
  "args_loop pe 0 toks pos args = OutOfFuel"
| "args_loop pe (Suc n) toks pos args =
     pbind (match_tok [''Comma''] toks pos) (\<lambda>m p.
       case m of
         Some tok \<Rightarrow> pbind (pe toks p) (\<lambda>a p1. args_loop pe n toks p1 (args @ [a]))
       | None \<Rightarrow> Ok args p)"

primrec call_loop :: "expr parser \<Rightarrow> nat \<Rightarrow> Token list \<Rightarrow> nat \<Rightarrow> expr \<Rightarrow> expr presult" where
  "call_loop pe 0 toks pos node = OutOfFuel"
| "call_loop pe (Suc n) toks pos node =
     pbind (match_tok [''ParenL''] toks pos) (\<lambda>m p.
       case m of
         Some tok \<Rightarrow>
           pbind (if ttype (peek toks p) \<noteq> ''ParenR''
                  then pbind (pe toks p) (\<lambda>a p1. args_loop pe n toks p1 [a])
                  else Ok [] p) (\<lambda>args p2.
           pbind (expect ''ParenR'' toks p2) (\<lambda>t p3.
           call_loop pe n toks p3 (Call node args)))
       | None \<Rightarrow> Ok node p)"

definition parse_call :: "expr parser \<Rightarrow> nat \<Rightarrow> expr parser" where
  "parse_call pe n toks pos =
     pbind (parse_primary pe toks pos) (\<lambda>node p. call_loop pe n toks p node)"

primrec parse_unary :: "expr parser \<Rightarrow> nat \<Rightarrow> expr parser" where
  "parse_unary pe 0 toks pos = OutOfFuel"
| "parse_unary pe (Suc n) toks pos =
     pbind (match_tok [''SubOp''] toks pos) (\<lambda>m p.
       case m of
         Some tok \<Rightarrow> pbind (parse_unary pe n toks p) (\<lambda>node p1. Ok (Unary ''SubOp'' node) p1)
       | None \<Rightarrow>
           pbind (match_tok [''NotOp''] toks p) (\<lambda>m1 p1.
             case m1 of
               Some tok \<Rightarrow>
                 pbind (parse_unary pe n toks p1) (\<lambda>node p2. Ok (Unary ''NotOp'' node) p2)
             | None \<Rightarrow> parse_call pe n toks p1))"

primrec mul_loop :: "expr parser \<Rightarrow> nat \<Rightarrow> Token list \<Rightarrow> nat \<Rightarrow> expr \<Rightarrow> expr presult" where
  "mul_loop pe 0 toks pos node = OutOfFuel"
| "mul_loop pe (Suc n) toks pos node =
     pbind (match_tok [''MulOp''] toks pos) (\<lambda>m0 p1.
       case m0 of
         Some tok \<Rightarrow>
           pbind (parse_unary pe n toks p1) (\<lambda>right q.
             mul_loop pe n toks q (Binary ''MulOp'' node right))
       | None \<Rightarrow> pbind (match_tok [''DivOp''] toks p1) (\<lambda>m1 p2.
           case m1 of
             Some tok \<Rightarrow>
               pbind (parse_unary pe n toks p2) (\<lambda>right q.
                 mul_loop pe n toks q (Binary ''DivOp'' node right))
           | None \<Rightarrow> pbind (match_tok [''ModOp''] toks p2) (\<lambda>m2 p3.
               case m2 of
                 Some tok \<Rightarrow>
                   pbind (parse_unary pe n toks p3) (\<lambda>right q.
                     mul_loop pe n toks q (Binary ''ModOp'' node right))
               | None \<Rightarrow> Ok node p3)))"

definition parse_mul :: "expr parser \<Rightarrow> nat \<Rightarrow> expr parser" where
  "parse_mul pe n toks pos =
     pbind (parse_unary pe n toks pos) (\<lambda>node p. mul_loop pe n toks p node)"

primrec add_loop :: "expr parser \<Rightarrow> nat \<Rightarrow> Token list \<Rightarrow> nat \<Rightarrow> expr \<Rightarrow> expr presult" where
  "add_loop pe 0 toks pos node = OutOfFuel"
| "add_loop pe (Suc n) toks pos node =
     pbind (match_tok [''AddOp''] toks pos) (\<lambda>m0 p1.
       case m0 of
         Some tok \<Rightarrow>
           pbind (parse_mul pe n toks p1) (\<lambda>right q.
             add_loop pe n toks q (Binary ''AddOp'' node right))
       | None \<Rightarrow> pbind (match_tok [''SubOp''] toks p1) (\<lambda>m1 p2.
           case m1 of
             Some tok \<Rightarrow>
               pbind (parse_mul pe n toks p2) (\<lambda>right q.
                 add_loop pe n toks q (Binary ''SubOp'' node right))
           | None \<Rightarrow> Ok node p2))"

definition parse_add :: "expr parser \<Rightarrow> nat \<Rightarrow> expr parser" where
  "parse_add pe n toks pos =
     pbind (parse_mul pe n toks pos) (\<lambda>node p. add_loop pe n toks p node)"

primrec comparison_loop :: "expr parser \<Rightarrow> nat \<Rightarrow> Token list \<Rightarrow> nat \<Rightarrow> expr \<Rightarrow> expr presult" where
  "comparison_loop pe 0 toks pos node = OutOfFuel"
| "comparison_loop pe (Suc n) toks pos node =
     pbind (match_tok [''LessThan''] toks pos) (\<lambda>m0 p1.
       case m0 of
         Some tok \<Rightarrow>
           pbind (parse_add pe n toks p1) (\<lambda>right q.
             comparison_loop pe n toks q (Binary ''LessThan'' node right))
       | None \<Rightarrow> pbind (match_tok [''GreaterThan''] toks p1) (\<lambda>m1 p2.
           case m1 of
             Some tok \<Rightarrow>
               pbind (parse_add pe n toks p2) (\<lambda>right q.
                 comparison_loop pe n toks q (Binary ''GreaterThan'' node right))
           | None \<Rightarrow> pbind (match_tok [''LessEq''] toks p2) (\<lambda>m2 p3.
               case m2 of
                 Some tok \<Rightarrow>
                   pbind (parse_add pe n toks p3) (\<lambda>right q.
                     comparison_loop pe n toks q (Binary ''LessEq'' node right))
               | None \<Rightarrow> pbind (match_tok [''GreaterEq''] toks p3) (\<lambda>m3 p4.
                   case m3 of
                     Some tok \<Rightarrow>
                       pbind (parse_add pe n toks p4) (\<lambda>right q.
                         comparison_loop pe n toks q (Binary ''GreaterEq'' node right))
                   | None \<Rightarrow> Ok node p4))))"

definition parse_comparison :: "expr parser \<Rightarrow> nat \<Rightarrow> expr parser" where
  "parse_comparison pe n toks pos =
     pbind (parse_add pe n toks pos) (\<lambda>node p. comparison_loop pe n toks p node)"

primrec equality_loop :: "expr parser \<Rightarrow> nat \<Rightarrow> Token list \<Rightarrow> nat \<Rightarrow> expr \<Rightarrow> expr presult" where
  "equality_loop pe 0 toks pos node = OutOfFuel"
| "equality_loop pe (Suc n) toks pos node =
     pbind (match_tok [''EqualsOp''] toks pos) (\<lambda>m0 p1.
       case m0 of
         Some tok \<Rightarrow>
           pbind (parse_comparison pe n toks p1) (\<lambda>right q.
             equality_loop pe n toks q (Binary ''EqualsOp'' node right))
       | None \<Rightarrow> pbind (match_tok [''NotEquals''] toks p1) (\<lambda>m1 p2.
           case m1 of
             Some tok \<Rightarrow>
               pbind (parse_comparison pe n toks p2) (\<lambda>right q.
                 equality_loop pe n toks q (Binary ''NotEquals'' node right))
           | None \<Rightarrow> Ok node p2))"

definition parse_equality :: "expr parser \<Rightarrow> nat \<Rightarrow> expr parser" where
  "parse_equality pe n toks pos =
     pbind (parse_comparison pe n toks pos) (\<lambda>node p. equality_loop pe n toks p node)"

primrec logical_and_loop :: "expr parser \<Rightarrow> nat \<Rightarrow> Token list \<Rightarrow> nat \<Rightarrow> expr \<Rightarrow> expr presult" where
  "logical_and_loop pe 0 toks pos node = OutOfFuel"
| "logical_and_loop pe (Suc n) toks pos node =
     pbind (match_tok [''AndOp''] toks pos) (\<lambda>m0 p1.
       case m0 of
         Some tok \<Rightarrow>
           pbind (parse_equality pe n toks p1) (\<lambda>right q.
             logical_and_loop pe n toks q (Binary ''AndOp'' node right))
       | None \<Rightarrow> Ok node p1)"

definition parse_logical_and :: "expr parser \<Rightarrow> nat \<Rightarrow> expr parser" where
  "parse_logical_and pe n toks pos =
     pbind (parse_equality pe n toks pos) (\<lambda>node p. logical_and_loop pe n toks p node)"

primrec logical_or_loop :: "expr parser \<Rightarrow> nat \<Rightarrow> Token list \<Rightarrow> nat \<Rightarrow> expr \<Rightarrow> expr presult" where
  "logical_or_loop pe 0 toks pos node = OutOfFuel"
| "logical_or_loop pe (Suc n) toks pos node =
     pbind (match_tok [''OrOp''] toks pos) (\<lambda>m0 p1.
       case m0 of
         Some tok \<Rightarrow>
           pbind (parse_logical_and pe n toks p1) (\<lambda>right q.
             logical_or_loop pe n toks q (Binary ''OrOp'' node right))
       | None \<Rightarrow> Ok node p1)"

definition parse_logical_or :: "expr parser \<Rightarrow> nat \<Rightarrow> expr parser" where
  "parse_logical_or pe n toks pos =
     pbind (parse_logical_and pe n toks pos) (\<lambda>node p. logical_or_loop pe n toks p node)"

primrec parse_assignment :: "expr parser \<Rightarrow> nat \<Rightarrow> expr parser" where
  "parse_assignment pe 0 toks pos = OutOfFuel"
| "parse_assignment pe (Suc n) toks pos =
     pbind (parse_logical_or pe n toks pos) (\<lambda>left p.
     pbind (match_tok [''AssignOp''] toks p) (\<lambda>m p1.
       case m of
         Some tok \<Rightarrow>
           pbind (parse_assignment pe n toks p1) (\<lambda>right p2.
             case left of
               Identifier name \<Rightarrow> Ok (Binary ''AssignOp'' left right) p2
             | _ \<Rightarrow> Raise UnexpectedToken)
       | None \<Rightarrow> Ok left p1))"

primrec parse_expr :: "nat \<Rightarrow> expr parser" where
  "parse_expr 0 = (\<lambda>toks pos. OutOfFuel)"
| "parse_expr (Suc n) = parse_assignment (parse_expr n) n"

text \<open>Declarations and statements. \<open>ps\<close> is \<^verbatim>\<open>self.parse_stmt\<close> for the nested statements.\<close>

definition parse_param :: "Param parser" where
  "parse_param toks pos =
     (let t = peek toks pos in
      if ttype t \<notin> set type_kinds then Raise ExpectedTypeToken
      else pbind (next_tok toks pos) (\<lambda>tt p.
           pbind (expect_identifier toks p) (\<lambda>name p1. Ok (Param (ttype tt) name) p1)))"

definition parse_var_decl :: "nat \<Rightarrow> VarDecl parser" where
  "parse_var_decl n toks pos =
     (let t = peek toks pos in
      if ttype t \<notin> set type_kinds then Raise ExpectedTypeToken
      else pbind (next_tok toks pos) (\<lambda>tt p.
           pbind (expect_identifier toks p) (\<lambda>name p1.
           pbind (match_tok [''AssignOp''] toks p1) (\<lambda>m p2.
             case m of
               Some tok \<Rightarrow>
                 pbind (parse_expr n toks p2) (\<lambda>e p3. Ok (VarDecl (ttype tt) name (Some e)) p3)
             | None \<Rightarrow> Ok (VarDecl (ttype tt) name None) p2))))"

text \<open>
  The loop \<^verbatim>\<open>while self._peek().type != "BraceR": xs.append(self.parse_stmt())\<close>, which
  the source writes out in \<^verbatim>\<open>parse_fn_decl\<close>, \<^verbatim>\<open>parse_stmt\<close>, \<^verbatim>\<open>parse_if\<close> and
  \<^verbatim>\<open>parse_for\<close>.
\<close>

primrec stmts_loop :: "stmt parser \<Rightarrow> nat \<Rightarrow> Token list \<Rightarrow> nat \<Rightarrow> stmt list \<Rightarrow> stmt list presult" where
  "stmts_loop ps 0 toks pos xs = OutOfFuel"
| "stmts_loop ps (Suc n) toks pos xs =
     (if ttype (peek toks pos) \<noteq> ''BraceR''
      then pbind (ps toks pos) (\<lambda>st p. stmts_loop ps n toks p (xs @ [st]))
      else Ok xs pos)"

definition parse_if :: "stmt parser \<Rightarrow> nat \<Rightarrow> stmt parser" where
  "parse_if ps n toks pos =
     pbind (next_tok toks pos) (\<lambda>t0 p0.
     pbind (expect ''ParenL'' toks p0) (\<lambda>t1 p1.
     pbind (parse_expr n toks p1) (\<lambda>cond p2.
     pbind (expect ''ParenR'' toks p2) (\<lambda>t3 p3.
     pbind (expect ''BraceL'' toks p3) (\<lambda>t4 p4.
     pbind (stmts_loop ps n toks p4 []) (\<lambda>if_block p5.
     pbind (expect ''BraceR'' toks p5) (\<lambda>t6 p6.
     pbind (pbind (match_tok [''Else''] toks p6) (\<lambda>m p7.
              case m of
                Some tok \<Rightarrow> Ok (Some tok) p7
              | None \<Rightarrow> match_tok [''warna''] toks p7)) (\<lambda>m p8.
     pbind (case m of
              Some tok \<Rightarrow>
                pbind (expect ''BraceL'' toks p8) (\<lambda>t9 p9.
                pbind (stmts_loop ps n toks p9 []) (\<lambda>else_block p10.
                pbind (expect ''BraceR'' toks p10) (\<lambda>t11 p11. Ok else_block p11)))
            | None \<Rightarrow> Ok [] p8) (\<lambda>else_block p12.
     pbind (match_tok terminators toks p12) (\<lambda>m1 p13.
     Ok (IfStmt cond if_block else_block) p13))))))))))"

definition parse_for :: "stmt parser \<Rightarrow> nat \<Rightarrow> stmt parser" where
  "parse_for ps n toks pos =
     pbind (next_tok toks pos) (\<lambda>t0 p0.
     pbind (expect ''ParenL'' toks p0) (\<lambda>t1 p1.
     pbind (if ttype (peek toks p1) \<in> set type_kinds
            then pbind (parse_var_decl n toks p1) (\<lambda>vd q.
                 pbind (match_tok terminators toks q) (\<lambda>m q1. Ok (Some (InitVarDecl vd)) q1))
            else if ttype (peek toks p1) \<noteq> ''Dot''
            then pbind (parse_expr n toks p1) (\<lambda>init_exp q.
                 pbind (match_tok terminators toks q) (\<lambda>m q1. Ok (Some (InitExprStmt init_exp)) q1))
            else pbind (match_tok terminators toks p1) (\<lambda>m q1. Ok None q1)) (\<lambda>init p2.
     pbind (if ttype (peek toks p2) \<noteq> ''Dot''
            then pbind (parse_expr n toks p2) (\<lambda>c q. Ok (Some c) q)
            else Ok None p2) (\<lambda>cond p3.
     pbind (match_tok terminators toks p3) (\<lambda>m p4.
     pbind (if ttype (peek toks p4) \<noteq> ''ParenR''
            then pbind (parse_expr n toks p4) (\<lambda>u q. Ok (Some u) q)
            else Ok None p4) (\<lambda>updt p5.
     pbind (expect ''ParenR'' toks p5) (\<lambda>t6 p6.
     pbind (expect ''BraceL'' toks p6) (\<lambda>t7 p7.
     pbind (stmts_loop ps n toks p7 []) (\<lambda>block p8.
     pbind (expect ''BraceR'' toks p8) (\<lambda>t9 p9.
     pbind (match_tok terminators toks p9) (\<lambda>m1 p10.
     Ok (ForStmt init cond updt block) p10)))))))))))"

primrec parse_stmt :: "nat \<Rightarrow> stmt parser" where
  "parse_stmt 0 = (\<lambda>toks pos. OutOfFuel)"
| "parse_stmt (Suc n) = (\<lambda>toks pos.
     let tok = peek toks pos in
     if ttype tok \<in> set type_kinds then
       pbind (parse_var_decl n toks pos) (\<lambda>var p.
       pbind (match_tok terminators toks p) (\<lambda>m p1. Ok (Var var) p1))
     else if ttype tok = ''Return'' \<or> ttype tok = ''wapsi'' then
       pbind (next_tok toks pos) (\<lambda>t p.
         if ttype (peek toks p) \<in> set terminators
         then pbind (match_tok terminators toks p) (\<lambda>m p1. Ok (ReturnStmt None) p1)
         else pbind (parse_expr n toks p) (\<lambda>e p1.
              pbind (match_tok terminators toks p1) (\<lambda>m p2. Ok (ReturnStmt (Some e)) p2)))
     else if ttype tok = ''If'' \<or> ttype tok = ''agar'' then parse_if (parse_stmt n) n toks pos
     else if ttype tok = ''For'' \<or> ttype tok = ''duhrao'' then parse_for (parse_stmt n) n toks pos
     else if ttype tok = ''Break'' \<or> ttype tok = ''toro'' then
       pbind (next_tok toks pos) (\<lambda>t p.
       pbind (match_tok terminators toks p) (\<lambda>m p1. Ok BreakStmt p1))
     else if ttype tok = ''BraceL'' then
       pbind (next_tok toks pos) (\<lambda>t p.
       pbind (stmts_loop (parse_stmt n) n toks p []) (\<lambda>block p1.
       pbind (expect ''BraceR'' toks p1) (\<lambda>t2 p2.
       pbind (match_tok terminators toks p2) (\<lambda>m p3. Ok (Block block) p3))))
     else
       pbind (parse_expr n toks pos) (\<lambda>e p.
       pbind (match_tok terminators toks p) (\<lambda>m p1. Ok (ExprStmt e) p1)))"

primrec params_loop :: "nat \<Rightarrow> Token list \<Rightarrow> nat \<Rightarrow> Param list \<Rightarrow> Param list presult" where
  "params_loop 0 toks pos ps = OutOfFuel"
| "params_loop (Suc n) toks pos ps =
     pbind (match_tok [''Comma''] toks pos) (\<lambda>m p.
       case m of
         Some tok \<Rightarrow> pbind (parse_param toks p) (\<lambda>a p1. params_loop n toks p1 (ps @ [a]))
       | None \<Rightarrow> Ok ps p)"

definition parse_fn_decl :: "nat \<Rightarrow> FnDecl parser" where
  "parse_fn_decl n toks pos =
     pbind (expect ''Function'' toks pos) (\<lambda>t0 p0.
       if ttype (peek toks p0) \<notin> set type_kinds then Raise ExpectedTypeToken
       else
     pbind (next_tok toks p0) (\<lambda>tt p1.
     pbind (expect_identifier toks p1) (\<lambda>name p2.
     pbind (expect ''ParenL'' toks p2) (\<lambda>t3 p3.
     pbind (if ttype (peek toks p3) \<noteq> ''ParenR''
            then pbind (parse_param toks p3) (\<lambda>a q. params_loop n toks q [a])
            else Ok [] p3) (\<lambda>params p4.
     pbind (expect ''ParenR'' toks p4) (\<lambda>t5 p5.
     pbind (expect ''BraceL'' toks p5) (\<lambda>t6 p6.
     pbind (stmts_loop (parse_stmt n) n toks p6 []) (\<lambda>body p7.
     pbind (expect ''BraceR'' toks p7) (\<lambda>t8 p8.
     pbind (match_tok terminators toks p8) (\<lambda>m p9.
     Ok (FnDecl (ttype tt) name params body) p9))))))))))"

text \<open>The loop of \<^verbatim>\<open>parse\<close> and the method itself, which starts at position 0.\<close>

primrec parse_loop :: "nat \<Rightarrow> Token list \<Rightarrow> nat \<Rightarrow> item list \<Rightarrow> Program presult" where
  "parse_loop 0 toks pos its = OutOfFuel"
| "parse_loop (Suc n) toks pos its =
     (if ttype (peek toks pos) \<noteq> ''EOF'' then
        (if ttype (peek toks pos) = ''Function'' then
           pbind (parse_fn_decl n toks pos) (\<lambda>fd p. parse_loop n toks p (its @ [FnDeclItem fd]))
         else if ttype (peek toks pos) \<in> set type_kinds then
           pbind (parse_var_decl n toks pos) (\<lambda>var p.
           pbind (match_tok terminators toks p) (\<lambda>m p1.
           parse_loop n toks p1 (its @ [StmtItem (Var var)])))
         else
           pbind (parse_stmt n toks pos) (\<lambda>st p. parse_loop n toks p (its @ [StmtItem st])))
      else Ok (Program its) pos)"

definition parse :: "nat \<Rightarrow> Token list \<Rightarrow> Program presult" where
  "parse n toks = parse_loop n toks 0 []"

section \<open>Scope analysis (compiler/scope_analyzer.py)\<close>

datatype Symbol =
  Symbol (sym_name: string) (kind: string) (type_tok: "string option")
         (params: "Param list option") (scope_level: nat)

text \<open>
  A frame of the spaghetti stack. The dictionary \<^verbatim>\<open>symbols\<close> is an association list
  in insertion order; \<^verbatim>\<open>define\<close> only ever adds a key that is absent. A frame is
  mutated only while it is the current one, and a child is dropped on exit, so the
  parent chain is kept by value.
\<close>

datatype ScopeNode =
  ScopeNode (parent: "ScopeNode option") (scope_type: string)
            (symbols: "(string \<times> Symbol) list") (level: nat)

text \<open>The two exceptions \<^verbatim>\<open>ScopeNode.define\<close> raises, with the name they mention.\<close>

datatype scope_exn = FunctionPrototypeRedefinition string | VariableRedefinition string

text \<open>
  An entry of \<^verbatim>\<open>ScopeAnalyzer.errors\<close>. The source stores message strings:
  \<open>Redefinition e\<close> is \<^verbatim>\<open>str(e)\<close> of a caught exception,
  \<open>UndeclaredVariableAccessed n\<close> is "UndeclaredVariableAccessed: Variable 'n' is not declared",
  \<open>UndefinedFunctionCalled n\<close> is "UndefinedFunctionCalled: Function 'n' is not defined",
  \<open>NotAFunction n\<close> is "UndefinedFunctionCalled: 'n' is not a function".
\<close>

datatype scope_msg =
    Redefinition scope_exn
  | UndeclaredVariableAccessed string
  | UndefinedFunctionCalled string
  | NotAFunction string

text \<open>\<^verbatim>\<open>ScopeError("\n".join(self.errors))\<close>, kept as the list of its lines.\<close>

datatype ScopeError = ScopeError "scope_msg list"

definition new_ScopeNode :: "ScopeNode option \<Rightarrow> string \<Rightarrow> ScopeNode" where
  "new_ScopeNode p t =
     ScopeNode p t [] (case p of None \<Rightarrow> 0 | Some q \<Rightarrow> level q + 1)"

definition define_node :: "ScopeNode \<Rightarrow> string \<Rightarrow> Symbol \<Rightarrow> scope_exn + ScopeNode" where
  "define_node sc name smb =
     (if name \<in> set (map fst (symbols sc)) then
        (if kind smb = ''function'' then Inl (FunctionPrototypeRedefinition name)
         else Inl (VariableRedefinition name))
      else Inr (ScopeNode (parent sc) (scope_type sc) (symbols sc @ [(name, smb)]) (level sc)))"

definition lookup_local :: "ScopeNode \<Rightarrow> string \<Rightarrow> Symbol option" where
  "lookup_local sc name = map_of (symbols sc) name"

fun lookup :: "ScopeNode \<Rightarrow> string \<Rightarrow> Symbol option" where
  "lookup (ScopeNode p t syms l) name =
     (if name \<in> set (map fst syms) then map_of syms name
      else (case p of None \<Rightarrow> None | Some q \<Rightarrow> lookup q name))"

text \<open>
  The analyzer's state. \<^verbatim>\<open>global_scope\<close> is the same object as the root of the
  current chain, so it is read off the chain.
\<close>

record ScopeAnalyzer =
  current_scope :: ScopeNode
  errors :: "scope_msg list"

fun root :: "ScopeNode \<Rightarrow> ScopeNode" where
  "root (ScopeNode p t syms l) = (case p of None \<Rightarrow> ScopeNode p t syms l | Some q \<Rightarrow> root q)"

definition global_scope :: "ScopeAnalyzer \<Rightarrow> ScopeNode" where
  "global_scope s = root (current_scope s)"

definition new_ScopeAnalyzer :: ScopeAnalyzer where
  "new_ScopeAnalyzer = \<lparr>current_scope = new_ScopeNode None ''global'', errors = []\<rparr>"

definition enter_scope :: "ScopeAnalyzer \<Rightarrow> string \<Rightarrow> ScopeAnalyzer" where
  "enter_scope s t = s\<lparr>current_scope := new_ScopeNode (Some (current_scope s)) t\<rparr>"

definition exit_scope :: "ScopeAnalyzer \<Rightarrow> ScopeAnalyzer" where
  "exit_scope s =
     (case parent (current_scope s) of None \<Rightarrow> s | Some p \<Rightarrow> s\<lparr>current_scope := p\<rparr>)"

definition define_symbol ::
  "ScopeAnalyzer \<Rightarrow> string \<Rightarrow> string \<Rightarrow> string option \<Rightarrow> Param list option
     \<Rightarrow> scope_exn + ScopeAnalyzer" where
  "define_symbol s name k ty ps =
     (case define_node (current_scope s) name (Symbol name k ty ps (level (current_scope s))) of
        Inl e \<Rightarrow> Inl e
      | Inr sc \<Rightarrow> Inr (s\<lparr>current_scope := sc\<rparr>))"

definition lookup_symbol :: "ScopeAnalyzer \<Rightarrow> string \<Rightarrow> Symbol option" where
  "lookup_symbol s name = lookup (current_scope s) name"

text \<open>
  Every call of \<^verbatim>\<open>define_symbol\<close> in the analyzer sits in the same
  \<^verbatim>\<open>try: ... except (FunctionPrototypeRedefinition, VariableRedefinition) as e:
  self.errors.append(str(e))\<close>; this is that block.
\<close>

definition try_define_symbol ::
  "ScopeAnalyzer \<Rightarrow> string \<Rightarrow> string \<Rightarrow> string option \<Rightarrow> Param list option \<Rightarrow> ScopeAnalyzer" where
  "try_define_symbol s name k ty ps =
     (case define_symbol s name k ty ps of
        Inl e \<Rightarrow> s\<lparr>errors := errors s @ [Redefinition e]\<rparr>
      | Inr s' \<Rightarrow> s')"

fun visit_expr :: "ScopeAnalyzer \<Rightarrow> expr \<Rightarrow> ScopeAnalyzer"
  and visit_args :: "ScopeAnalyzer \<Rightarrow> expr list \<Rightarrow> ScopeAnalyzer" where
  "visit_expr s (Binary opr l r) = visit_expr (visit_expr s l) r"
| "visit_expr s (Unary opr e) = visit_expr s e"
| "visit_expr s (Literal v) = s"
| "visit_expr s (Identifier name) =
     (case lookup_symbol s name of
        None \<Rightarrow> s\<lparr>errors := errors s @ [UndeclaredVariableAccessed name]\<rparr>
      | Some smb \<Rightarrow> s)"
| "visit_expr s (Call callee args) =
     visit_args
       (case callee of
          Identifier name \<Rightarrow>
            (case lookup_symbol s name of
               None \<Rightarrow> s\<lparr>errors := errors s @ [UndefinedFunctionCalled name]\<rparr>
             | Some smb \<Rightarrow>
                 if kind smb \<noteq> ''function'' then s\<lparr>errors := errors s @ [NotAFunction name]\<rparr>
                 else s)
        | _ \<Rightarrow> visit_expr s callee)
       args"
| "visit_args s [] = s"
| "visit_args s (a # as) = visit_args (visit_expr s a) as"

definition visit_var_decl :: "ScopeAnalyzer \<Rightarrow> VarDecl \<Rightarrow> ScopeAnalyzer" where
  "visit_var_decl s node =
     try_define_symbol
       (case v_expr node of None \<Rightarrow> s | Some e \<Rightarrow> visit_expr s e)
       (v_name node) ''var'' (Some (v_type_tok node)) None"

fun visit_stmt :: "ScopeAnalyzer \<Rightarrow> stmt \<Rightarrow> ScopeAnalyzer"
  and visit_stmts :: "ScopeAnalyzer \<Rightarrow> stmt list \<Rightarrow> ScopeAnalyzer" where
  "visit_stmt s (Var vd) = visit_var_decl s vd"
| "visit_stmt s (Block ss) = exit_scope (visit_stmts (enter_scope s ''block'') ss)"
| "visit_stmt s (ExprStmt e) = visit_expr s e"
| "visit_stmt s (ReturnStmt eo) = (case eo of None \<Rightarrow> s | Some e \<Rightarrow> visit_expr s e)"
| "visit_stmt s (IfStmt c ib eb) =
     (let s1 = visit_expr s c;
          s2 = exit_scope (visit_stmts (enter_scope s1 ''block'') ib)
      in if eb \<noteq> [] then exit_scope (visit_stmts (enter_scope s2 ''block'') eb) else s2)"
| "visit_stmt s (ForStmt init c u b) =
     (let s1 = enter_scope s ''block'';
          s2 = (case init of
                  None \<Rightarrow> s1
                | Some (InitVarDecl vd) \<Rightarrow> visit_var_decl s1 vd
                | Some (InitExprStmt e) \<Rightarrow> visit_expr s1 e);
          s3 = (case c of None \<Rightarrow> s2 | Some e \<Rightarrow> visit_expr s2 e);
          s4 = (case u of None \<Rightarrow> s3 | Some e \<Rightarrow> visit_expr s3 e)
      in exit_scope (visit_stmts s4 b))"
| "visit_stmt s BreakStmt = s"
| "visit_stmts s [] = s"
| "visit_stmts s (x # xs) = visit_stmts (visit_stmt s x) xs"

definition visit_fn_decl :: "ScopeAnalyzer \<Rightarrow> FnDecl \<Rightarrow> ScopeAnalyzer" where
  "visit_fn_decl s node =
     (let s1 = enter_scope s ''function'';
          s2 = fold (\<lambda>p st. try_define_symbol st (p_name p) ''param'' (Some (p_type_tok p)) None)
                    (f_params node) s1
      in exit_scope (visit_stmts s2 (f_body node)))"

text \<open>First pass of \<^verbatim>\<open>visit_program\<close>: one loop step.\<close>

definition collect_fn :: "item \<Rightarrow> ScopeAnalyzer \<Rightarrow> ScopeAnalyzer" where
  "collect_fn it s =
     (case it of
        FnDeclItem fd \<Rightarrow>
          try_define_symbol s (f_name fd) ''function'' (Some (f_type_tok fd)) (Some (f_params fd))
      | _ \<Rightarrow> s)"

text \<open>
  Second pass: one loop step. A bare \<^verbatim>\<open>VarDecl\<close> item is neither a \<^verbatim>\<open>FnDecl\<close> nor a
  tuple, so it reaches \<^verbatim>\<open>visit_stmt\<close>, where no branch matches it.
\<close>

definition visit_item :: "item \<Rightarrow> ScopeAnalyzer \<Rightarrow> ScopeAnalyzer" where
  "visit_item it s =
     (case it of
        FnDeclItem fd \<Rightarrow> visit_fn_decl s fd
      | StmtItem (Var vd) \<Rightarrow> visit_var_decl s vd
      | StmtItem st \<Rightarrow> visit_stmt s st
      | VarDeclItem vd \<Rightarrow> s)"

definition visit_program :: "ScopeAnalyzer \<Rightarrow> Program \<Rightarrow> ScopeAnalyzer" where
  "visit_program s node = fold visit_item (items node) (fold collect_fn (items node) s)"

definition analyze :: "ScopeAnalyzer \<Rightarrow> Program \<Rightarrow> ScopeError + ScopeAnalyzer" where
  "analyze s ast =
     (let s' = visit_program s ast
      in if errors s' \<noteq> [] then Inl (ScopeError (errors s')) else Inr s')"

definition analyze_scope :: "Program \<Rightarrow> ScopeError + ScopeAnalyzer" where
  "analyze_scope ast = analyze new_ScopeAnalyzer ast"

section \<open>Type checking (compiler/type_checker.py)\<close>

text \<open>
  The exceptions the checker can end with: the classes of type_checker.py with the data
  their messages carry, and the built-in exceptions the interpreter raises on the way
  (a missing attribute, iterating \<^verbatim>\<open>None\<close>).
\<close>

datatype param_count_msg =
    NotDefined string
  | Expects string nat nat

datatype mismatch_msg =
    UndeclaredVariable string
  | AssignedType string "string option" string

datatype tc_error =
    ErroneousVarDecl string
  | FnCallParamCount param_count_msg
  | FnCallParamType string string string "string option"
  | ErroneousReturnType "string option" "string option"
  | ExpressionTypeMismatch mismatch_msg
  | ExpectedBooleanExpression
  | ErroneousBreak
  | NonBooleanCondStmt
  | EmptyExpression
  | AttemptedBoolOpOnNonBools
  | AttemptedAddOpOnNonNumeric
  | AttemptedExponentiationOfNonNumeric
  | ReturnStmtNotFound string
  | AttributeError string string
  | TypeError string

text \<open>
  The checker's state. It only reads the analyzer it was given. Its own
  \<^verbatim>\<open>current_scope\<close> may become \<^verbatim>\<open>None\<close> (the last line but one of
  \<^verbatim>\<open>check_fn_decl\<close> assigns a parent to it).
\<close>

record TypeChecker =
  scope_analyzer :: ScopeAnalyzer
  tc_current_scope :: "ScopeNode option"
  current_function :: "Symbol option"

definition new_TypeChecker :: "ScopeAnalyzer \<Rightarrow> TypeChecker" where
  "new_TypeChecker sa =
     \<lparr>scope_analyzer = sa, tc_current_scope = Some (global_scope sa), current_function = None\<rparr>"

definition tc_enter_scope :: "TypeChecker \<Rightarrow> string \<Rightarrow> TypeChecker" where
  "tc_enter_scope tc t = tc\<lparr>tc_current_scope := Some (new_ScopeNode (tc_current_scope tc) t)\<rparr>"

definition tc_exit_scope :: "TypeChecker \<Rightarrow> tc_error + TypeChecker" where
  "tc_exit_scope tc =
     (case tc_current_scope tc of
        None \<Rightarrow> Inl (AttributeError ''NoneType'' ''parent'')
      | Some sc \<Rightarrow>
          (case parent sc of None \<Rightarrow> Inr tc | Some p \<Rightarrow> Inr (tc\<lparr>tc_current_scope := Some p\<rparr>)))"

fun in_loop_from :: "ScopeNode \<Rightarrow> bool" where
  "in_loop_from (ScopeNode p t syms l) =
     (if t = ''for'' then True else (case p of None \<Rightarrow> False | Some q \<Rightarrow> in_loop_from q))"

definition in_loop :: "TypeChecker \<Rightarrow> bool" where
  "in_loop tc = (case tc_current_scope tc of None \<Rightarrow> False | Some sc \<Rightarrow> in_loop_from sc)"

text \<open>
  \<^verbatim>\<open>get_function_scope\<close> starts with \<^verbatim>\<open>for scope in self.scope_analyzer.all_scopes\<close>.
  \<^verbatim>\<open>ScopeAnalyzer.__init__\<close> assigns \<^verbatim>\<open>global_scope\<close>, \<^verbatim>\<open>current_scope\<close> and
  \<^verbatim>\<open>errors\<close>, no method assigns any other attribute and the class defines none named
  \<^verbatim>\<open>all_scopes\<close>, so evaluating the loop's iterable raises \<^verbatim>\<open>AttributeError\<close>
  before the body or the final \<^verbatim>\<open>raise\<close> is reached.
\<close>

definition get_function_scope :: "TypeChecker \<Rightarrow> string \<Rightarrow> tc_error + ScopeNode" where
  "get_function_scope tc fn_name = Inl (AttributeError ''ScopeAnalyzer'' ''all_scopes'')"

text \<open>
  \<^verbatim>\<open>expr.callee.name\<close>: only \<^verbatim>\<open>Identifier\<close> has the attribute \<^verbatim>\<open>name\<close>.
\<close>

fun callee_name :: "expr \<Rightarrow> tc_error + string" where
  "callee_name (Identifier name) = Inr name"
| "callee_name (Binary opr l r) = Inl (AttributeError ''Binary'' ''name'')"
| "callee_name (Unary opr e) = Inl (AttributeError ''Unary'' ''name'')"
| "callee_name (Literal v) = Inl (AttributeError ''Literal'' ''name'')"
| "callee_name (Call c args) = Inl (AttributeError ''Call'' ''name'')"

text \<open>
  \<^verbatim>\<open>check_expr\<close> returns a type name, a \<^verbatim>\<open>str\<close>, or the \<^verbatim>\<open>None\<close> a symbol
  may carry as \<^verbatim>\<open>type_tok\<close>. A \<^verbatim>\<open>Literal\<close> has no attribute \<^verbatim>\<open>type_tok\<close>, so
  its branch raises \<^verbatim>\<open>AttributeError\<close>. The trees of type \<open>expr\<close> are never
  \<^verbatim>\<open>None\<close> and always of one of the five classes, so neither
  \<^verbatim>\<open>raise EmptyExpression()\<close> nor the final \<^verbatim>\<open>return "Unknown"\<close> has a branch here.
  \<open>check_args\<close> is the loop \<^verbatim>\<open>for arg, param in zip(expr.args, fn_symbol.params)\<close>.
\<close>

fun check_expr :: "TypeChecker \<Rightarrow> expr \<Rightarrow> tc_error + string option"
  and check_args :: "TypeChecker \<Rightarrow> string \<Rightarrow> expr list \<Rightarrow> Param list \<Rightarrow> tc_error + unit" where
  "check_expr tc (Literal v) = Inl (AttributeError ''Literal'' ''type_tok'')"
| "check_expr tc (Identifier name) =
     (case lookup_symbol (scope_analyzer tc) name of
        None \<Rightarrow> Inl (ExpressionTypeMismatch (UndeclaredVariable name))
      | Some smb \<Rightarrow> Inr (type_tok smb))"
| "check_expr tc (Unary opr e) =
     (case check_expr tc e of Inl err \<Rightarrow> Inl err | Inr operand_type \<Rightarrow> Inr operand_type)"
| "check_expr tc (Binary opr l r) =
     (case check_expr tc l of
        Inl err \<Rightarrow> Inl err
      | Inr left_type \<Rightarrow>
          (case check_expr tc r of
             Inl err \<Rightarrow> Inl err
           | Inr right_type \<Rightarrow>
               if opr \<in> set [''+'', ''-'', ''*'', ''/'', ''**''] then
                 (if left_type \<notin> set [Some ''Int'', Some ''Float'']
                     \<or> right_type \<notin> set [Some ''Int'', Some ''Float'']
                  then (if opr = ''**'' then Inl AttemptedExponentiationOfNonNumeric
                        else Inl AttemptedAddOpOnNonNumeric)
                  else Inr left_type)
               else if opr \<in> set [''&&'', ''||''] then
                 (if left_type \<noteq> Some ''Bool'' \<or> right_type \<noteq> Some ''Bool''
                  then Inl AttemptedBoolOpOnNonBools
                  else Inr (Some ''Bool''))
               else Inr left_type))"
| "check_expr tc (Call callee args) =
     (case callee_name callee of
        Inl err \<Rightarrow> Inl err
      | Inr name \<Rightarrow>
          (case lookup_symbol (scope_analyzer tc) name of
             None \<Rightarrow> Inl (FnCallParamCount (NotDefined name))
           | Some fn_symbol \<Rightarrow>
               (let param_count =
                      (case params fn_symbol of None \<Rightarrow> 0 | Some ps \<Rightarrow> length ps)
                in if length args \<noteq> param_count
                   then Inl (FnCallParamCount (Expects name param_count (length args)))
                   else (case params fn_symbol of
                           None \<Rightarrow> Inl (TypeError ''NoneType object is not iterable'')
                         | Some ps \<Rightarrow>
                             (case check_args tc name args ps of
                                Inl err \<Rightarrow> Inl err
                              | Inr u \<Rightarrow> Inr (type_tok fn_symbol))))))"
| "check_args tc name (arg # args) (param # ps) =
     (case check_expr tc arg of
        Inl err \<Rightarrow> Inl err
      | Inr arg_type \<Rightarrow>
          if arg_type \<noteq> Some (p_type_tok param)
          then Inl (FnCallParamType name (p_name param) (p_type_tok param) arg_type)
          else check_args tc name args ps)"
| "check_args tc name [] ps = Inr ()"
| "check_args tc name args [] = Inr ()"

definition check_var_decl :: "TypeChecker \<Rightarrow> VarDecl \<Rightarrow> tc_error + TypeChecker" where
  "check_var_decl tc node =
     (case v_expr node of
        None \<Rightarrow> Inr tc
      | Some e \<Rightarrow>
          (case check_expr tc e of
             Inl err \<Rightarrow> Inl err
           | Inr expr_type \<Rightarrow>
               if expr_type \<noteq> Some (v_type_tok node)
               then Inl (ExpressionTypeMismatch
                          (AssignedType (v_name node) expr_type (v_type_tok node)))
               else Inr tc))"

text \<open>
  \<^verbatim>\<open>check_stmt\<close> has branches for the five statement classes only: the tuples
  \<^verbatim>\<open>("Var", ...)\<close> and \<^verbatim>\<open>("Block", ...)\<close> match none of them and the call returns
  without doing anything.
\<close>

fun check_stmt :: "TypeChecker \<Rightarrow> stmt \<Rightarrow> tc_error + TypeChecker"
  and check_stmts :: "TypeChecker \<Rightarrow> stmt list \<Rightarrow> tc_error + TypeChecker" where
  "check_stmt tc (Var vd) = Inr tc"
| "check_stmt tc (Block ss) = Inr tc"
| "check_stmt tc (ExprStmt e) =
     (case check_expr tc e of Inl err \<Rightarrow> Inl err | Inr t \<Rightarrow> Inr tc)"
| "check_stmt tc (ReturnStmt eo) =
     (case (case eo of None \<Rightarrow> Inr (Some ''Void'') | Some e \<Rightarrow> check_expr tc e) of
        Inl err \<Rightarrow> Inl err
      | Inr expr_type \<Rightarrow>
          (case current_function tc of
             None \<Rightarrow> Inl (AttributeError ''NoneType'' ''type_tok'')
           | Some f \<Rightarrow>
               if expr_type \<noteq> type_tok f then Inl (ErroneousReturnType expr_type (type_tok f))
               else Inr tc))"
| "check_stmt tc (IfStmt c ib eb) =
     (case check_expr tc c of
        Inl err \<Rightarrow> Inl err
      | Inr cond_type \<Rightarrow>
          if cond_type \<noteq> Some ''Bool'' then Inl ExpectedBooleanExpression
          else (case check_stmts (tc_enter_scope tc ''if'') ib of
                  Inl err \<Rightarrow> Inl err
                | Inr tc1 \<Rightarrow>
                    (case tc_exit_scope tc1 of
                       Inl err \<Rightarrow> Inl err
                     | Inr tc2 \<Rightarrow>
                         if eb \<noteq> [] then
                           (case check_stmts (tc_enter_scope tc2 ''else'') eb of
                              Inl err \<Rightarrow> Inl err
                            | Inr tc3 \<Rightarrow> tc_exit_scope tc3)
                         else Inr tc2)))"
| "check_stmt tc (ForStmt init c u b) =
     (let tc1 = tc_enter_scope tc ''for'' in
      case (case init of
              None \<Rightarrow> Inr tc1
            | Some (InitVarDecl vd) \<Rightarrow> check_var_decl tc1 vd
            | Some (InitExprStmt e) \<Rightarrow>
                (case check_expr tc1 e of Inl err \<Rightarrow> Inl err | Inr t \<Rightarrow> Inr tc1)) of
        Inl err \<Rightarrow> Inl err
      | Inr tc2 \<Rightarrow>
          (case (case c of
                   None \<Rightarrow> Inr tc2
                 | Some e \<Rightarrow>
                     (case check_expr tc2 e of
                        Inl err \<Rightarrow> Inl err
                      | Inr cond_type \<Rightarrow>
                          if cond_type \<noteq> Some ''Bool'' then Inl NonBooleanCondStmt
                          else Inr tc2)) of
             Inl err \<Rightarrow> Inl err
           | Inr tc3 \<Rightarrow>
               (case (case u of
                        None \<Rightarrow> Inr tc3
                      | Some e \<Rightarrow>
                          (case check_expr tc3 e of Inl err \<Rightarrow> Inl err | Inr t \<Rightarrow> Inr tc3)) of
                  Inl err \<Rightarrow> Inl err
                | Inr tc4 \<Rightarrow>
                    (case check_stmts tc4 b of
                       Inl err \<Rightarrow> Inl err
                     | Inr tc5 \<Rightarrow> tc_exit_scope tc5))))"
| "check_stmt tc BreakStmt = (if \<not> in_loop tc then Inl ErroneousBreak else Inr tc)"
| "check_stmts tc [] = Inr tc"
| "check_stmts tc (x # xs) =
     (case check_stmt tc x of Inl err \<Rightarrow> Inl err | Inr tc1 \<Rightarrow> check_stmts tc1 xs)"

text \<open>
  The body loop of \<^verbatim>\<open>check_fn_decl\<close>, with the flag \<^verbatim>\<open>returned\<close>:
  \<^verbatim>\<open>for stmt in node.body: if isinstance(stmt, ReturnStmt): returned = True;
  self.check_stmt(stmt)\<close>.
\<close>

fun is_ReturnStmt :: "stmt \<Rightarrow> bool" where
  "is_ReturnStmt (ReturnStmt eo) = True"
| "is_ReturnStmt st = False"

fun check_body :: "TypeChecker \<Rightarrow> stmt list \<Rightarrow> bool \<Rightarrow> tc_error + (TypeChecker \<times> bool)" where
  "check_body tc [] returned = Inr (tc, returned)"
| "check_body tc (st # body) returned =
     (case check_stmt tc st of
        Inl err \<Rightarrow> Inl err
      | Inr tc1 \<Rightarrow> check_body tc1 body (returned \<or> is_ReturnStmt st))"

text \<open>
  \<^verbatim>\<open>check_fn_decl\<close>. The test \<^verbatim>\<open>param.type_tok is None\<close> is false for every
  \<^verbatim>\<open>Param\<close> (its \<^verbatim>\<open>type_tok\<close> is a \<^verbatim>\<open>str\<close>), so the loop over the parameters
  raises nothing.
\<close>

definition check_fn_decl :: "TypeChecker \<Rightarrow> FnDecl \<Rightarrow> tc_error + TypeChecker" where
  "check_fn_decl tc node =
     (let tc1 = tc\<lparr>current_function := lookup_symbol (scope_analyzer tc) (f_name node)\<rparr> in
      case get_function_scope tc1 (f_name node) of
        Inl err \<Rightarrow> Inl err
      | Inr sc \<Rightarrow>
          (case check_body (tc1\<lparr>tc_current_scope := Some sc\<rparr>) (f_body node) False of
             Inl err \<Rightarrow> Inl err
           | Inr (tc2, returned) \<Rightarrow>
               (case current_function tc2 of
                  None \<Rightarrow> Inl (AttributeError ''NoneType'' ''type_tok'')
                | Some f \<Rightarrow>
                    if type_tok f \<noteq> Some ''Void'' \<and> \<not> returned
                    then Inl (ReturnStmtNotFound (f_name node))
                    else (case tc_current_scope tc2 of
                            None \<Rightarrow> Inl (AttributeError ''NoneType'' ''parent'')
                          | Some cur \<Rightarrow>
                              Inr (tc2\<lparr>tc_current_scope := parent cur,
                                       current_function := None\<rparr>)))))"

definition check_item :: "TypeChecker \<Rightarrow> item \<Rightarrow> tc_error + TypeChecker" where
  "check_item tc it =
     (case it of
        FnDeclItem fd \<Rightarrow> check_fn_decl tc fd
      | VarDeclItem vd \<Rightarrow> check_var_decl tc vd
      | StmtItem st \<Rightarrow> check_stmt tc st)"

fun check_items :: "TypeChecker \<Rightarrow> item list \<Rightarrow> tc_error + TypeChecker" where
  "check_items tc [] = Inr tc"
| "check_items tc (it # its) =
     (case check_item tc it of Inl err \<Rightarrow> Inl err | Inr tc1 \<Rightarrow> check_items tc1 its)"

definition check_program :: "TypeChecker \<Rightarrow> Program \<Rightarrow> tc_error + TypeChecker" where
  "check_program tc program = check_items tc (items program)"

section \<open>The driver (main_typecheck.py)\<close>

text \<open>
  \<^verbatim>\<open>main\<close> after tokenisation: parse, analyse the scopes, check the types, and stop
  at the first stage that raises.
\<close>

datatype outcome =
    ParseFailed ParseError
  | ScopeFailed ScopeError
  | TypeCheckFailed tc_error
  | TypeCheckPassed
  | NotFinished

definition typecheck_main :: "nat \<Rightarrow> Token list \<Rightarrow> outcome" where
  "typecheck_main n toks =
     (case parse n toks of
        Raise e \<Rightarrow> ParseFailed e
      | OutOfFuel \<Rightarrow> NotFinished
      | Ok ast p \<Rightarrow>
          (case analyze_scope ast of
             Inl e \<Rightarrow> ScopeFailed e
           | Inr sa \<Rightarrow>
               (case check_program (new_TypeChecker sa) ast of
                  Inl e \<Rightarrow> TypeCheckFailed e
                | Inr tc \<Rightarrow> TypeCheckPassed)))"

section \<open>Programs used below\<close>

text \<open>A token without a value, an identifier, literals; positions are left out.\<close>

definition tk :: "string \<Rightarrow> Token" where
  "tk ty = Token ty NoneV None"

definition ident :: "string \<Rightarrow> Token" where
  "ident x = Token ''Identifier'' (StrV x) None"

definition int_lit :: "int \<Rightarrow> Token" where
  "int_lit i = Token ''IntLit'' (IntV i) None"

definition bool_lit :: "bool \<Rightarrow> Token" where
  "bool_lit b = Token ''BoolLit'' (BoolV b) None"

text \<open>\<^verbatim>\<open>int x = true\<close>\<close>

definition toks_int_x_true :: "Token list" where
  "toks_int_x_true = [tk ''Int'', ident ''x'', tk ''AssignOp'', bool_lit True, tk ''EOF'']"

text \<open>\<^verbatim>\<open>bool b = true\<close>, then on the next line \<^verbatim>\<open>b + b\<close>\<close>

definition toks_bool_plus_bool :: "Token list" where
  "toks_bool_plus_bool =
     [tk ''Bool'', ident ''b'', tk ''AssignOp'', bool_lit True,
      ident ''b'', tk ''AddOp'', ident ''b'', tk ''EOF'']"

text \<open>\<^verbatim>\<open>function int f() { }\<close>\<close>

definition toks_fn_without_return :: "Token list" where
  "toks_fn_without_return =
     [tk ''Function'', tk ''Int'', ident ''f'', tk ''ParenL'', tk ''ParenR'',
      tk ''BraceL'', tk ''BraceR'', tk ''EOF'']"

text \<open>\<^verbatim>\<open>function int add(int a, int b) { return a + b }\<close>\<close>

definition toks_add :: "Token list" where
  "toks_add =
     [tk ''Function'', tk ''Int'', ident ''add'', tk ''ParenL'', tk ''Int'', ident ''a'',
      tk ''Comma'', tk ''Int'', ident ''b'', tk ''ParenR'', tk ''BraceL'', tk ''Return'',
      ident ''a'', tk ''AddOp'', ident ''b'', tk ''BraceR'', tk ''EOF'']"

definition prog_add :: Program where
  "prog_add =
     Program [FnDeclItem (FnDecl ''Int'' ''add'' [Param ''Int'' ''a'', Param ''Int'' ''b'']
                [ReturnStmt (Some (Binary ''AddOp'' (Identifier ''a'') (Identifier ''b'')))])]"

text \<open>The checker as \<^verbatim>\<open>main\<close> builds it for \<open>prog_add\<close>.\<close>

definition tc_add :: TypeChecker where
  "tc_add = new_TypeChecker (visit_program new_ScopeAnalyzer prog_add)"

text \<open>
  The frame of a function with a parameter \<open>a\<close>, inside a global frame that binds
  \<open>x\<close> as a function: binding the variable \<open>a\<close> is recorded as an error, binding the
  variable \<open>x\<close>, which only shadows the global entry, is not.
\<close>

definition frame_with_param :: ScopeAnalyzer where
  "frame_with_param =
     \<lparr>current_scope =
        ScopeNode
          (Some (ScopeNode None ''global''
                   [(''x'', Symbol ''x'' ''function'' (Some ''Int'') (Some []) 0)] 0))
          ''function'' [(''a'', Symbol ''a'' ''param'' (Some ''Int'') None 1)] 1,
      errors = []\<rparr>"





section \<open>Notions the specification uses\<close>

text \<open>
  The names an expression reads as variables: every \<^verbatim>\<open>Identifier\<close> in it except one
  standing directly as the callee of a call (that one is a call-callee name).
\<close>

fun var_refs :: "expr \<Rightarrow> string set" and var_refs_list :: "expr list \<Rightarrow> string set" where
  "var_refs (Binary opr l r) = var_refs l \<union> var_refs r"
| "var_refs (Unary opr e) = var_refs e"
| "var_refs (Literal v) = {}"
| "var_refs (Identifier name) = {name}"
| "var_refs (Call callee args) =
     (case callee of Identifier name \<Rightarrow> {} | _ \<Rightarrow> var_refs callee) \<union> var_refs_list args"
| "var_refs_list [] = {}"
| "var_refs_list (a # as) = var_refs a \<union> var_refs_list as"

text \<open>
  The names that stand directly as the callee of a call, and all the names an expression
  mentions in an \<^verbatim>\<open>Identifier\<close>.
\<close>

fun callee_refs :: "expr \<Rightarrow> string set" and callee_refs_list :: "expr list \<Rightarrow> string set" where
  "callee_refs (Binary opr l r) = callee_refs l \<union> callee_refs r"
| "callee_refs (Unary opr e) = callee_refs e"
| "callee_refs (Literal v) = {}"
| "callee_refs (Identifier name) = {}"
| "callee_refs (Call callee args) =
     (case callee of Identifier name \<Rightarrow> {name} | _ \<Rightarrow> callee_refs callee)
       \<union> callee_refs_list args"
| "callee_refs_list [] = {}"
| "callee_refs_list (a # as) = callee_refs a \<union> callee_refs_list as"

fun idents :: "expr \<Rightarrow> string set" and idents_list :: "expr list \<Rightarrow> string set" where
  "idents (Binary opr l r) = idents l \<union> idents r"
| "idents (Unary opr e) = idents e"
| "idents (Literal v) = {}"
| "idents (Identifier name) = {name}"
| "idents (Call callee args) = idents callee \<union> idents_list args"
| "idents_list [] = {}"
| "idents_list (a # as) = idents a \<union> idents_list as"

text \<open>
  Two token lists are the same but for the stops when they have the same length and,
  place by place, hold the same token or two tokens that are both a period, a semicolon
  or a closing brace. \<open>ok_le r r'\<close> says that whenever \<open>r\<close> is a finished parse,
  \<open>r'\<close> is the same one; a parser is preserved from \<open>a\<close> to \<open>b\<close> when this
  holds of its results at every position.
\<close>

definition stop_kinds :: "string list" where
  "stop_kinds = [''Dot'', ''Semicolon'', ''BraceR'']"

definition same_but_stops :: "Token list \<Rightarrow> Token list \<Rightarrow> bool" where
  "same_but_stops a b \<longleftrightarrow>
     length a = length b \<and>
     (\<forall>i < length a. a ! i = b ! i \<or>
        (ttype (a ! i) \<in> set stop_kinds \<and> ttype (b ! i) \<in> set stop_kinds))"

definition ok_le :: "'a presult \<Rightarrow> 'a presult \<Rightarrow> bool" where
  "ok_le r r' \<longleftrightarrow> (\<forall>v p. r = Ok v p \<longrightarrow> r' = Ok v p)"

definition preserved :: "'a parser \<Rightarrow> Token list \<Rightarrow> Token list \<Rightarrow> bool" where
  "preserved f a b \<longleftrightarrow> (\<forall>pos. ok_le (f a pos) (f b pos))"




text \<open>
  The scope chain as the specification speaks of it: a list of frames, innermost first,
  each a list of the names bound in it with a flag that tells a function from a variable
  or parameter. A name is visible when some frame of the chain binds it; the innermost
  binding counts.
\<close>

type_synonym frame = "(string \<times> bool) list"

fun visible :: "frame list \<Rightarrow> string \<Rightarrow> bool option" where
  "visible [] n = None"
| "visible (f # fs) n = (case map_of f n of Some k \<Rightarrow> Some k | None \<Rightarrow> visible fs n)"

text \<open>
  An expression resolves in a chain when every identifier in it is visible there. The
  walk below follows a program in source order with the chain of the names declared so
  far: a declaration binds its name in the innermost frame after its initialiser has
  resolved, a block, a branch, a loop and a function body open a frame of their own, and
  the functions of the program are bound in the outermost frame from the start. The walk
  gives \<open>None\<close> as soon as a reference does not resolve.

  The flag \<open>strict\<close> adds the two conditions that "declared before use" leaves out:
  a name is not bound twice in one frame, and the name called in a call is bound to a
  function.
\<close>

fun resolves :: "bool \<Rightarrow> frame list \<Rightarrow> expr \<Rightarrow> bool"
  and resolves_all :: "bool \<Rightarrow> frame list \<Rightarrow> expr list \<Rightarrow> bool" where
  "resolves strict c (Binary opr l r) = (resolves strict c l \<and> resolves strict c r)"
| "resolves strict c (Unary opr e) = resolves strict c e"
| "resolves strict c (Literal v) = True"
| "resolves strict c (Identifier n) = (visible c n \<noteq> None)"
| "resolves strict c (Call callee args) =
     ((case callee of
         Identifier f \<Rightarrow> (if strict then visible c f = Some True else visible c f \<noteq> None)
       | _ \<Rightarrow> resolves strict c callee)
      \<and> resolves_all strict c args)"
| "resolves_all strict c [] = True"
| "resolves_all strict c (a # as) = (resolves strict c a \<and> resolves_all strict c as)"

fun bind_name :: "bool \<Rightarrow> frame list \<Rightarrow> string \<Rightarrow> bool \<Rightarrow> frame list option" where
  "bind_name strict [] n k = None"
| "bind_name strict (f # fs) n k =
     (if strict \<and> n \<in> fst ` set f then None else Some ((f @ [(n, k)]) # fs))"

definition resolves_opt :: "bool \<Rightarrow> frame list \<Rightarrow> expr option \<Rightarrow> bool" where
  "resolves_opt strict c eo = (case eo of None \<Rightarrow> True | Some e \<Rightarrow> resolves strict c e)"

definition scoped_var_decl :: "bool \<Rightarrow> frame list \<Rightarrow> VarDecl \<Rightarrow> frame list option" where
  "scoped_var_decl strict c vd =
     (if resolves_opt strict c (v_expr vd) then bind_name strict c (v_name vd) False else None)"

fun scoped_stmt :: "bool \<Rightarrow> frame list \<Rightarrow> stmt \<Rightarrow> frame list option"
  and scoped_stmts :: "bool \<Rightarrow> frame list \<Rightarrow> stmt list \<Rightarrow> frame list option" where
  "scoped_stmt strict c (Var vd) = scoped_var_decl strict c vd"
| "scoped_stmt strict c (Block ss) =
     (if scoped_stmts strict ([] # c) ss \<noteq> None then Some c else None)"
| "scoped_stmt strict c (ExprStmt e) = (if resolves strict c e then Some c else None)"
| "scoped_stmt strict c (ReturnStmt eo) = (if resolves_opt strict c eo then Some c else None)"
| "scoped_stmt strict c (IfStmt cond ib eb) =
     (if resolves strict c cond \<and> scoped_stmts strict ([] # c) ib \<noteq> None
         \<and> scoped_stmts strict ([] # c) eb \<noteq> None
      then Some c else None)"
| "scoped_stmt strict c (ForStmt init cond upd body) =
     (case (case init of
              None \<Rightarrow> Some ([] # c)
            | Some (InitVarDecl vd) \<Rightarrow> scoped_var_decl strict ([] # c) vd
            | Some (InitExprStmt e) \<Rightarrow> if resolves strict ([] # c) e then Some ([] # c) else None) of
        None \<Rightarrow> None
      | Some c1 \<Rightarrow>
          if resolves_opt strict c1 cond \<and> resolves_opt strict c1 upd
             \<and> scoped_stmts strict c1 body \<noteq> None
          then Some c else None)"
| "scoped_stmt strict c BreakStmt = Some c"
| "scoped_stmts strict c [] = Some c"
| "scoped_stmts strict c (x # xs) =
     (case scoped_stmt strict c x of None \<Rightarrow> None | Some c1 \<Rightarrow> scoped_stmts strict c1 xs)"

definition scoped_fn_decl :: "bool \<Rightarrow> frame list \<Rightarrow> FnDecl \<Rightarrow> bool" where
  "scoped_fn_decl strict c fd \<longleftrightarrow>
     (if strict then distinct (map p_name (f_params fd)) else True)
     \<and> scoped_stmts strict (map (\<lambda>p. (p_name p, False)) (f_params fd) # c) (f_body fd) \<noteq> None"

text \<open>
  A bare \<^verbatim>\<open>VarDecl\<close> item is not part of a well-formed program: the parser wraps every
  top-level declaration as a statement.
\<close>

fun scoped_items :: "bool \<Rightarrow> frame list \<Rightarrow> item list \<Rightarrow> bool" where
  "scoped_items strict c [] = True"
| "scoped_items strict c (FnDeclItem fd # its) =
     (scoped_fn_decl strict c fd \<and> scoped_items strict c its)"
| "scoped_items strict c (StmtItem st # its) =
     (case scoped_stmt strict c st of None \<Rightarrow> False | Some c1 \<Rightarrow> scoped_items strict c1 its)"
| "scoped_items strict c (VarDeclItem vd # its) = False"

fun fn_names :: "item list \<Rightarrow> string list" where
  "fn_names [] = []"
| "fn_names (FnDeclItem fd # its) = f_name fd # fn_names its"
| "fn_names (it # its) = fn_names its"

definition scoped_program :: "bool \<Rightarrow> Program \<Rightarrow> bool" where
  "scoped_program strict prog \<longleftrightarrow>
     (if strict then distinct (fn_names (items prog)) else True)
     \<and> scoped_items strict [map (\<lambda>n. (n, True)) (fn_names (items prog))] (items prog)"

text \<open>
  \<open>declared_before_use\<close>: every referenced identifier is declared before its first
  use in its visible scope chain. \<open>well_scoped\<close>: the same with the two conditions
  of the strict walk.
\<close>

definition declared_before_use :: "Program \<Rightarrow> bool" where
  "declared_before_use prog = scoped_program False prog"

definition well_scoped :: "Program \<Rightarrow> bool" where
  "well_scoped prog = scoped_program True prog"

text \<open>
  The chain a frame of the analyzer stands for, and two relations on analyzer states:
  \<open>keeps s s' c\<close> says that \<open>s'\<close> has the errors of \<open>s\<close>, the same enclosing
  frame, and stands for the chain \<open>c\<close>; a step \<open>accumulates\<close> when, from any
  frame, it ends in a frame and appends a list of messages that do not depend on the
  messages recorded before.
\<close>

fun frames :: "ScopeNode \<Rightarrow> frame list" where
  "frames (ScopeNode p t syms l) =
     map (\<lambda>(n, smb). (n, kind smb = ''function'')) syms
       # (case p of None \<Rightarrow> [] | Some q \<Rightarrow> frames q)"

definition keeps :: "ScopeAnalyzer \<Rightarrow> ScopeAnalyzer \<Rightarrow> frame list \<Rightarrow> bool" where
  "keeps s s' c \<longleftrightarrow>
     errors s' = errors s \<and> parent (current_scope s') = parent (current_scope s)
     \<and> frames (current_scope s') = c"

section \<open>Properties of the scope analyzer\<close>

lemma visit_expr_scope:
  "current_scope (visit_expr s e) = current_scope s"
  "current_scope (visit_args s es) = current_scope s"
proof (induction s e and s es rule: visit_expr_visit_args.induct)
  case (5 s callee args)
  then show ?case
    by (cases callee) (simp_all add: lookup_symbol_def split: option.splits)
qed (simp_all add: lookup_symbol_def split: option.splits)

lemma visit_expr_errors_grow:
  "set (errors s) \<subseteq> set (errors (visit_expr s e))"
  "set (errors s) \<subseteq> set (errors (visit_args s es))"
proof (induction s e and s es rule: visit_expr_visit_args.induct)
  case (5 s callee args)
  then show ?case
    by (cases callee) (auto simp add: lookup_symbol_def split: option.splits)
qed (auto simp add: lookup_symbol_def split: option.splits)

lemma lookup_symbol_visit_expr:
  "lookup_symbol (visit_expr s e) n = lookup_symbol s n"
  "lookup_symbol (visit_args s es) n = lookup_symbol s n"
  by (simp_all add: lookup_symbol_def visit_expr_scope)

lemma undeclared_recorded:
  "lookup_symbol s n = None \<Longrightarrow> n \<in> var_refs e \<Longrightarrow>
     UndeclaredVariableAccessed n \<in> set (errors (visit_expr s e))"
  "lookup_symbol s n = None \<Longrightarrow> n \<in> var_refs_list es \<Longrightarrow>
     UndeclaredVariableAccessed n \<in> set (errors (visit_args s es))"
proof (induction s e and s es rule: visit_expr_visit_args.induct)
  case (1 s opr l r)
  from "1.prems"(2) have "n \<in> var_refs l \<or> n \<in> var_refs r" by simp
  then show ?case
  proof
    assume "n \<in> var_refs l"
    then have "UndeclaredVariableAccessed n \<in> set (errors (visit_expr s l))"
      using "1.IH"(1) "1.prems"(1) by blast
    then show ?thesis
      using visit_expr_errors_grow(1)[of "visit_expr s l" r] by auto
  next
    assume "n \<in> var_refs r"
    moreover have "lookup_symbol (visit_expr s l) n = None"
      using "1.prems"(1) by (simp add: lookup_symbol_visit_expr)
    ultimately show ?thesis using "1.IH"(2) by simp
  qed
next
  case (2 s opr e)
  then show ?case by simp
next
  case (3 s v)
  then show ?case by simp
next
  case (4 s name)
  then show ?case by simp
next
  case (5 s callee args)
  let ?s1 = "(case callee of
          Identifier name \<Rightarrow>
            (case lookup_symbol s name of
               None \<Rightarrow> s\<lparr>errors := errors s @ [UndefinedFunctionCalled name]\<rparr>
             | Some smb \<Rightarrow>
                 if kind smb \<noteq> ''function'' then s\<lparr>errors := errors s @ [NotAFunction name]\<rparr>
                 else s)
        | _ \<Rightarrow> visit_expr s callee)"
  have eq: "visit_expr s (Call callee args) = visit_args ?s1 args" by simp
  have look1: "lookup_symbol ?s1 n = None"
    using "5.prems"(1)
    by (cases callee)
       (simp_all add: visit_expr_scope lookup_symbol_def del: visit_expr.simps
          split: option.splits)
  from "5.prems"(2) have
    "(n \<in> var_refs callee \<and> (\<forall>name. callee \<noteq> Identifier name)) \<or> n \<in> var_refs_list args"
    by (cases callee) simp_all
  then show ?case
  proof
    assume a: "n \<in> var_refs callee \<and> (\<forall>name. callee \<noteq> Identifier name)"
    have "UndeclaredVariableAccessed n \<in> set (errors ?s1)"
    proof (cases callee)
      case (Binary x1 x2 x3)
      then show ?thesis using "5.IH"(1)[OF Binary "5.prems"(1)] a by simp
    next
      case (Unary x1 x2)
      then show ?thesis using "5.IH"(2)[OF Unary "5.prems"(1)] a by simp
    next
      case (Literal x)
      then show ?thesis using a by simp
    next
      case (Identifier x)
      then show ?thesis using a by simp
    next
      case (Call x1 x2)
      then show ?thesis using "5.IH"(4)[OF Call "5.prems"(1)] a by simp
    qed
    then show ?thesis
      unfolding eq using visit_expr_errors_grow(2)[of ?s1 args] by blast
  next
    assume "n \<in> var_refs_list args"
    then show ?thesis unfolding eq using "5.IH"(5)[OF look1] by blast
  qed
next
  case (6 s)
  then show ?case by simp
next
  case (7 s a as)
  from "7.prems"(2) have "n \<in> var_refs a \<or> n \<in> var_refs_list as" by simp
  then show ?case
  proof
    assume "n \<in> var_refs a"
    then have "UndeclaredVariableAccessed n \<in> set (errors (visit_expr s a))"
      using "7.IH"(1) "7.prems"(1) by blast
    then show ?thesis
      using visit_expr_errors_grow(2)[of "visit_expr s a" as] by auto
  next
    assume "n \<in> var_refs_list as"
    moreover have "lookup_symbol (visit_expr s a) n = None"
      using "7.prems"(1) by (simp add: lookup_symbol_visit_expr)
    ultimately show ?thesis using "7.IH"(2) by simp
  qed
qed

lemma lookup_None_not_local:
  "lookup sc n = None \<Longrightarrow> n \<notin> set (map fst (symbols sc))"
  by (cases sc) (auto split: if_splits simp: map_of_eq_None_iff)

lemma try_define_fresh:
  assumes "n \<notin> set (map fst (symbols (current_scope s)))"
  shows "errors (try_define_symbol s n k ty ps) = errors s"
    and "lookup_symbol (try_define_symbol s n k ty ps) n
           = Some (Symbol n k ty ps (level (current_scope s)))"
proof -
  from assms have "map_of (symbols (current_scope s)) n = None"
    by (simp add: map_of_eq_None_iff)
  then show "lookup_symbol (try_define_symbol s n k ty ps) n
           = Some (Symbol n k ty ps (level (current_scope s)))"
    using assms
    by (simp add: try_define_symbol_def define_symbol_def define_node_def lookup_symbol_def
        map_add_def)
  show "errors (try_define_symbol s n k ty ps) = errors s"
    using assms
    by (simp add: try_define_symbol_def define_symbol_def define_node_def)
qed

text \<open>
  Claim C7. Binding a name that is already a key of the current frame is recorded as a
  redefinition error whatever the entry it collides with: \<^verbatim>\<open>define\<close> raises
  \<open>FunctionPrototypeRedefinition\<close> when the new symbol is a function and
  \<open>VariableRedefinition\<close> otherwise, and every caller appends the message to
  \<open>errors\<close> and leaves the frame as it was. Binding a name that is not a key of the
  current frame, whatever the outer frames hold, records nothing, and the new symbol is
  the one \<open>lookup\<close> then finds.
\<close>

theorem redefinition_in_same_frame_only:
  "(name \<in> set (map fst (symbols (current_scope s))) \<longrightarrow>
      define_node (current_scope s) name smb =
        Inl (if kind smb = ''function'' then FunctionPrototypeRedefinition name
             else VariableRedefinition name)
      \<and> try_define_symbol s name k ty ps =
        s\<lparr>errors := errors s @
            [Redefinition (if k = ''function'' then FunctionPrototypeRedefinition name
                           else VariableRedefinition name)]\<rparr>)
   \<and> (name \<notin> set (map fst (symbols (current_scope s))) \<longrightarrow>
      (\<exists>sc. define_node (current_scope s) name smb = Inr sc)
      \<and> errors (try_define_symbol s name k ty ps) = errors s
      \<and> lookup_symbol (try_define_symbol s name k ty ps) name =
          Some (Symbol name k ty ps (level (current_scope s))))"
proof (intro conjI impI)
  assume "name \<in> set (map fst (symbols (current_scope s)))"
  then show "define_node (current_scope s) name smb =
        Inl (if kind smb = ''function'' then FunctionPrototypeRedefinition name
             else VariableRedefinition name)"
    and "try_define_symbol s name k ty ps =
        s\<lparr>errors := errors s @
            [Redefinition (if k = ''function'' then FunctionPrototypeRedefinition name
                           else VariableRedefinition name)]\<rparr>"
    by (simp_all add: try_define_symbol_def define_symbol_def define_node_def)
next
  assume fresh: "name \<notin> set (map fst (symbols (current_scope s)))"
  then show "\<exists>sc. define_node (current_scope s) name smb = Inr sc"
    by (simp add: define_node_def)
  from fresh show "errors (try_define_symbol s name k ty ps) = errors s"
    by (rule try_define_fresh(1))
  from fresh show "lookup_symbol (try_define_symbol s name k ty ps) name =
          Some (Symbol name k ty ps (level (current_scope s)))"
    by (rule try_define_fresh(2))
qed

theorem redefinition_in_same_frame_only_witness:
  "''a'' \<in> set (map fst (symbols (current_scope frame_with_param)))
   \<and> errors (try_define_symbol frame_with_param ''a'' ''var'' (Some ''Int'') None) =
       [Redefinition (VariableRedefinition ''a'')]
   \<and> ''x'' \<notin> set (map fst (symbols (current_scope frame_with_param)))
   \<and> lookup_symbol frame_with_param ''x'' =
       Some (Symbol ''x'' ''function'' (Some ''Int'') (Some []) 0)
   \<and> errors (try_define_symbol frame_with_param ''x'' ''var'' (Some ''Int'') None) = []
   \<and> lookup_symbol (try_define_symbol frame_with_param ''x'' ''var'' (Some ''Int'') None) ''x'' =
       Some (Symbol ''x'' ''var'' (Some ''Int'') None 1)"
proof -
  have a: "''a'' \<in> set (map fst (symbols (current_scope frame_with_param)))"
    by (simp add: frame_with_param_def)
  have x: "''x'' \<notin> set (map fst (symbols (current_scope frame_with_param)))"
    by (simp add: frame_with_param_def)
  have e: "errors frame_with_param = []" "level (current_scope frame_with_param) = 1"
    by (simp_all add: frame_with_param_def)
  have l: "lookup_symbol frame_with_param ''x'' =
       Some (Symbol ''x'' ''function'' (Some ''Int'') (Some []) 0)"
    by (simp add: frame_with_param_def lookup_symbol_def)
  show ?thesis
    using a x e l
      redefinition_in_same_frame_only
        [of "''a''" frame_with_param undefined "''var''" "Some ''Int''" None]
      redefinition_in_same_frame_only
        [of "''x''" frame_with_param undefined "''var''" "Some ''Int''" None]
    by simp
qed

lemma idents_split:
  "idents e = var_refs e \<union> callee_refs e"
  "idents_list es = var_refs_list es \<union> callee_refs_list es"
proof (induction e and es rule: idents_idents_list.induct)
  case (5 callee args)
  then show ?case by (cases callee) auto
qed auto

lemma undefined_recorded:
  "lookup_symbol s n = None \<Longrightarrow> n \<in> callee_refs e \<Longrightarrow>
     UndefinedFunctionCalled n \<in> set (errors (visit_expr s e))"
  "lookup_symbol s n = None \<Longrightarrow> n \<in> callee_refs_list es \<Longrightarrow>
     UndefinedFunctionCalled n \<in> set (errors (visit_args s es))"
proof (induction s e and s es rule: visit_expr_visit_args.induct)
  case (1 s opr l r)
  from "1.prems"(2) have "n \<in> callee_refs l \<or> n \<in> callee_refs r" by simp
  then show ?case
  proof
    assume "n \<in> callee_refs l"
    then have "UndefinedFunctionCalled n \<in> set (errors (visit_expr s l))"
      using "1.IH"(1) "1.prems"(1) by blast
    then show ?thesis
      using visit_expr_errors_grow(1)[of "visit_expr s l" r] by auto
  next
    assume "n \<in> callee_refs r"
    moreover have "lookup_symbol (visit_expr s l) n = None"
      using "1.prems"(1) by (simp add: lookup_symbol_visit_expr)
    ultimately show ?thesis using "1.IH"(2) by simp
  qed
next
  case (2 s opr e)
  then show ?case by simp
next
  case (3 s v)
  then show ?case by simp
next
  case (4 s name)
  then show ?case by simp
next
  case (5 s callee args)
  let ?s1 = "(case callee of
          Identifier name \<Rightarrow>
            (case lookup_symbol s name of
               None \<Rightarrow> s\<lparr>errors := errors s @ [UndefinedFunctionCalled name]\<rparr>
             | Some smb \<Rightarrow>
                 if kind smb \<noteq> ''function'' then s\<lparr>errors := errors s @ [NotAFunction name]\<rparr>
                 else s)
        | _ \<Rightarrow> visit_expr s callee)"
  have eq: "visit_expr s (Call callee args) = visit_args ?s1 args" by simp
  have look1: "lookup_symbol ?s1 n = None"
    using "5.prems"(1)
    by (cases callee)
       (simp_all add: visit_expr_scope lookup_symbol_def del: visit_expr.simps
          split: option.splits)
  from "5.prems"(2) have
    "callee = Identifier n \<or> (n \<in> callee_refs callee \<and> (\<forall>name. callee \<noteq> Identifier name))
      \<or> n \<in> callee_refs_list args"
    by (cases callee) auto
  then consider (direct) "callee = Identifier n"
    | (inner) "n \<in> callee_refs callee" "\<forall>name. callee \<noteq> Identifier name"
    | (args) "n \<in> callee_refs_list args"
    by blast
  then show ?case
  proof cases
    case direct
    then have "UndefinedFunctionCalled n \<in> set (errors ?s1)"
      using "5.prems"(1) by simp
    then show ?thesis
      unfolding eq using visit_expr_errors_grow(2)[of ?s1 args] by blast
  next
    case inner
    have "UndefinedFunctionCalled n \<in> set (errors ?s1)"
    proof (cases callee)
      case (Binary x1 x2 x3)
      then show ?thesis using "5.IH"(1)[OF Binary "5.prems"(1)] inner by simp
    next
      case (Unary x1 x2)
      then show ?thesis using "5.IH"(2)[OF Unary "5.prems"(1)] inner by simp
    next
      case (Literal x)
      then show ?thesis using inner by simp
    next
      case (Identifier x)
      then show ?thesis using inner by simp
    next
      case (Call x1 x2)
      then show ?thesis using "5.IH"(4)[OF Call "5.prems"(1)] inner by simp
    qed
    then show ?thesis
      unfolding eq using visit_expr_errors_grow(2)[of ?s1 args] by blast
  next
    case args
    then show ?thesis unfolding eq using "5.IH"(5)[OF look1] by blast
  qed
next
  case (6 s)
  then show ?case by simp
next
  case (7 s a as)
  from "7.prems"(2) have "n \<in> callee_refs a \<or> n \<in> callee_refs_list as" by simp
  then show ?case
  proof
    assume "n \<in> callee_refs a"
    then have "UndefinedFunctionCalled n \<in> set (errors (visit_expr s a))"
      using "7.IH"(1) "7.prems"(1) by blast
    then show ?thesis
      using visit_expr_errors_grow(2)[of "visit_expr s a" as] by auto
  next
    assume "n \<in> callee_refs_list as"
    moreover have "lookup_symbol (visit_expr s a) n = None"
      using "7.prems"(1) by (simp add: lookup_symbol_visit_expr)
    ultimately show ?thesis using "7.IH"(2) by simp
  qed
qed

text \<open>
  Claim C8, as the code has it. \<^verbatim>\<open>visit_var_decl\<close> visits the initialiser first and
  binds the name afterwards. So when the declared name \<open>n\<close> has no binding in the scope
  chain, every mention of \<open>n\<close> in the initialiser is recorded as a scope error and none
  resolves to the new binding: \<open>UndeclaredVariableAccessed n\<close> where \<open>n\<close> is read as a
  variable, \<open>UndefinedFunctionCalled n\<close> where \<open>n\<close> stands as the callee of a call.
  The binding of \<open>n\<close> is made only after that.
\<close>

theorem initializer_is_resolved_before_the_binding:
  "lookup_symbol s n = None \<longrightarrow>
     visit_var_decl s (VarDecl t n (Some e)) =
       try_define_symbol (visit_expr s e) n ''var'' (Some t) None
     \<and> (n \<in> var_refs e \<longrightarrow>
          UndeclaredVariableAccessed n \<in> set (errors (visit_var_decl s (VarDecl t n (Some e)))))
     \<and> (n \<in> callee_refs e \<longrightarrow>
          UndefinedFunctionCalled n \<in> set (errors (visit_var_decl s (VarDecl t n (Some e)))))
     \<and> (n \<in> idents e \<longrightarrow>
          UndeclaredVariableAccessed n \<in> set (errors (visit_var_decl s (VarDecl t n (Some e))))
          \<or> UndefinedFunctionCalled n \<in> set (errors (visit_var_decl s (VarDecl t n (Some e)))))
     \<and> lookup_symbol (visit_var_decl s (VarDecl t n (Some e))) n =
         Some (Symbol n ''var'' (Some t) None (level (current_scope s)))"
proof (intro impI)
  assume none: "lookup_symbol s n = None"
  let ?r = "visit_var_decl s (VarDecl t n (Some e))"
  have eq: "?r = try_define_symbol (visit_expr s e) n ''var'' (Some t) None"
    by (simp add: visit_var_decl_def)
  have "n \<notin> set (map fst (symbols (current_scope s)))"
    using none lookup_None_not_local by (simp add: lookup_symbol_def)
  then have fresh: "n \<notin> set (map fst (symbols (current_scope (visit_expr s e))))"
    by (simp add: visit_expr_scope)
  have errs: "errors ?r = errors (visit_expr s e)"
    unfolding eq by (rule try_define_fresh(1)[OF fresh])
  have v: "n \<in> var_refs e \<longrightarrow> UndeclaredVariableAccessed n \<in> set (errors ?r)"
    unfolding errs using undeclared_recorded(1)[OF none] by blast
  have c: "n \<in> callee_refs e \<longrightarrow> UndefinedFunctionCalled n \<in> set (errors ?r)"
    unfolding errs using undefined_recorded(1)[OF none] by blast
  have i: "n \<in> idents e \<longrightarrow>
          UndeclaredVariableAccessed n \<in> set (errors ?r)
          \<or> UndefinedFunctionCalled n \<in> set (errors ?r)"
    using v c by (auto simp: idents_split(1))
  have l: "lookup_symbol ?r n = Some (Symbol n ''var'' (Some t) None (level (current_scope s)))"
    unfolding eq using try_define_fresh(2)[OF fresh] by (simp add: visit_expr_scope)
  from eq v c i l show "?r = try_define_symbol (visit_expr s e) n ''var'' (Some t) None
     \<and> (n \<in> var_refs e \<longrightarrow> UndeclaredVariableAccessed n \<in> set (errors ?r))
     \<and> (n \<in> callee_refs e \<longrightarrow> UndefinedFunctionCalled n \<in> set (errors ?r))
     \<and> (n \<in> idents e \<longrightarrow>
          UndeclaredVariableAccessed n \<in> set (errors ?r)
          \<or> UndefinedFunctionCalled n \<in> set (errors ?r))
     \<and> lookup_symbol ?r n = Some (Symbol n ''var'' (Some t) None (level (current_scope s)))"
    by blast
qed

text \<open>The declaration \<^verbatim>\<open>int x = x + x()\<close> at the start of a program.\<close>

theorem initializer_is_resolved_before_the_binding_witness:
  "lookup_symbol new_ScopeAnalyzer ''x'' = None
   \<and> ''x'' \<in> var_refs (Binary ''AddOp'' (Identifier ''x'') (Call (Identifier ''x'') []))
   \<and> ''x'' \<in> callee_refs (Binary ''AddOp'' (Identifier ''x'') (Call (Identifier ''x'') []))
   \<and> ''x'' \<in> idents (Binary ''AddOp'' (Identifier ''x'') (Call (Identifier ''x'') []))
   \<and> UndeclaredVariableAccessed ''x''
       \<in> set (errors (visit_var_decl new_ScopeAnalyzer
            (VarDecl ''Int'' ''x''
               (Some (Binary ''AddOp'' (Identifier ''x'') (Call (Identifier ''x'') []))))))
   \<and> UndefinedFunctionCalled ''x''
       \<in> set (errors (visit_var_decl new_ScopeAnalyzer
            (VarDecl ''Int'' ''x''
               (Some (Binary ''AddOp'' (Identifier ''x'') (Call (Identifier ''x'') []))))))"
proof -
  have a: "lookup_symbol new_ScopeAnalyzer ''x'' = None"
    by (simp add: new_ScopeAnalyzer_def new_ScopeNode_def lookup_symbol_def)
  have b: "''x'' \<in> var_refs (Binary ''AddOp'' (Identifier ''x'') (Call (Identifier ''x'') []))"
    "''x'' \<in> callee_refs (Binary ''AddOp'' (Identifier ''x'') (Call (Identifier ''x'') []))"
    "''x'' \<in> idents (Binary ''AddOp'' (Identifier ''x'') (Call (Identifier ''x'') []))"
    by simp_all
  show ?thesis
    using a b
      initializer_is_resolved_before_the_binding
        [where s = new_ScopeAnalyzer and n = "''x''" and t = "''Int''"
           and e = "Binary ''AddOp'' (Identifier ''x'') (Call (Identifier ''x'') [])"]
    by blast
qed

text \<open>
  The declaration \<^verbatim>\<open>int x = x()\<close> at the start of a program: the one error recorded
  is \<open>UndefinedFunctionCalled\<close>, not \<open>UndeclaredVariableAccessed\<close>.
\<close>

theorem callee_initializer_is_not_undeclared_variable:
  "lookup_symbol new_ScopeAnalyzer ''x'' = None
   \<and> ''x'' \<in> idents (Call (Identifier ''x'') [])
   \<and> errors (visit_var_decl new_ScopeAnalyzer
             (VarDecl ''Int'' ''x'' (Some (Call (Identifier ''x'') []))))
     = [UndefinedFunctionCalled ''x'']
   \<and> UndeclaredVariableAccessed ''x''
       \<notin> set (errors (visit_var_decl new_ScopeAnalyzer
                  (VarDecl ''Int'' ''x'' (Some (Call (Identifier ''x'') [])))))"
  by (simp add: visit_var_decl_def try_define_symbol_def define_symbol_def define_node_def
      new_ScopeAnalyzer_def new_ScopeNode_def lookup_symbol_def)

subsection \<open>Well-scoped programs and the accumulation of errors\<close>




lemma keeps_refl: "keeps s s (frames (current_scope s))"
  by (simp add: keeps_def)



lemma keeps_errors: "keeps s s' c \<Longrightarrow> errors s' = errors s"
  by (simp add: keeps_def)









lemma bind_name_fresh:
  "n \<notin> fst ` set f \<Longrightarrow> bind_name True (f # c) n k = Some ((f @ [(n, k)]) # c)"
  by simp







text \<open>The strict walk is the walk of "declared before use" with more conditions.\<close>

lemma resolves_strict:
  "resolves True c e \<Longrightarrow> resolves False c e"
  "resolves_all True c es \<Longrightarrow> resolves_all False c es"
proof (induction e and es rule: idents_idents_list.induct)
  case (5 callee args)
  then show ?case by (cases callee) auto
qed auto

lemma resolves_opt_strict: "resolves_opt True c eo \<Longrightarrow> resolves_opt False c eo"
  by (auto simp: resolves_opt_def resolves_strict split: option.splits)

lemma bind_name_strict: "bind_name True c n k = Some c' \<Longrightarrow> bind_name False c n k = Some c'"
  by (cases c) (auto split: if_splits)

lemma scoped_var_decl_strict:
  "scoped_var_decl True c vd = Some c' \<Longrightarrow> scoped_var_decl False c vd = Some c'"
  by (auto simp: scoped_var_decl_def resolves_opt_strict bind_name_strict split: if_splits)

lemma scoped_stmts_strict:
  assumes "\<And>x c c'. x \<in> set ss \<Longrightarrow> scoped_stmt True c x = Some c'
             \<Longrightarrow> scoped_stmt False c x = Some c'"
  shows "scoped_stmts True c ss = Some c' \<Longrightarrow> scoped_stmts False c ss = Some c'"
  using assms
proof (induction ss arbitrary: c)
  case Nil
  then show ?case by simp
next
  case (Cons x xs)
  from Cons.prems(1) obtain c1 where
    x: "scoped_stmt True c x = Some c1" and xs: "scoped_stmts True c1 xs = Some c'"
    by (auto split: option.splits)
  have "scoped_stmt False c x = Some c1" using Cons.prems(2) x by simp
  moreover have "scoped_stmts False c1 xs = Some c'"
    using Cons.IH [OF xs] Cons.prems(2) by simp
  ultimately show ?case by simp
qed

lemma scoped_stmts_strict_defined:
  assumes "\<And>x c c'. x \<in> set ss \<Longrightarrow> scoped_stmt True c x = Some c'
             \<Longrightarrow> scoped_stmt False c x = Some c'"
  shows "scoped_stmts True c ss \<noteq> None \<Longrightarrow> scoped_stmts False c ss \<noteq> None"
  using scoped_stmts_strict [OF assms] by fastforce

lemma scoped_stmt_strict:
  "scoped_stmt True c st = Some c' \<Longrightarrow> scoped_stmt False c st = Some c'"
proof (induction st arbitrary: c c')
  case (Var vd)
  then show ?case by (simp add: scoped_var_decl_strict)
next
  case (Block ss)
  then show ?case
    using scoped_stmts_strict_defined [of ss "[] # c"] by (auto split: if_splits)
next
  case (ExprStmt e)
  then show ?case by (auto simp: resolves_strict split: if_splits)
next
  case (ReturnStmt eo)
  then show ?case by (auto simp: resolves_opt_strict split: if_splits)
next
  case (IfStmt cond ib eb)
  then show ?case
    using scoped_stmts_strict_defined [of ib "[] # c"]
      scoped_stmts_strict_defined [of eb "[] # c"]
    by (auto simp: resolves_strict split: if_splits)
next
  case (ForStmt init cond upd body)
  from ForStmt.prems obtain c1 where
    i: "(case init of
              None \<Rightarrow> Some ([] # c)
            | Some (InitVarDecl vd) \<Rightarrow> scoped_var_decl True ([] # c) vd
            | Some (InitExprStmt e) \<Rightarrow> if resolves True ([] # c) e then Some ([] # c) else None)
          = Some c1"
    and rc: "resolves_opt True c1 cond" and ru: "resolves_opt True c1 upd"
    and b: "scoped_stmts True c1 body \<noteq> None" and c: "c' = c"
    by (auto split: option.splits if_splits)
  have i': "(case init of
              None \<Rightarrow> Some ([] # c)
            | Some (InitVarDecl vd) \<Rightarrow> scoped_var_decl False ([] # c) vd
            | Some (InitExprStmt e) \<Rightarrow> if resolves False ([] # c) e then Some ([] # c) else None)
          = Some c1"
  proof (cases init)
    case None
    then show ?thesis using i by simp
  next
    case (Some a)
    then show ?thesis
      using i by (cases a) (auto simp: scoped_var_decl_strict resolves_strict split: if_splits)
  qed
  have "scoped_stmts False c1 body \<noteq> None"
    using scoped_stmts_strict_defined [of body c1] ForStmt.IH b by blast
  then show ?case
    using i' rc ru c by (simp add: resolves_opt_strict)
next
  case BreakStmt
  then show ?case by simp
qed

lemma scoped_items_strict: "scoped_items True c its \<Longrightarrow> scoped_items False c its"
proof (induction its arbitrary: c)
  case Nil
  then show ?case by simp
next
  case (Cons it its)
  show ?case
  proof (cases it)
    case (FnDeclItem fd)
    then show ?thesis
      using Cons scoped_stmts_strict_defined [of "f_body fd", OF scoped_stmt_strict]
      by (auto simp: scoped_fn_decl_def)
  next
    case (VarDeclItem vd)
    then show ?thesis using Cons.prems by simp
  next
    case (StmtItem st)
    then show ?thesis
      using Cons by (auto simp: scoped_stmt_strict split: option.splits)
  qed
qed

lemma well_scoped_declared_before_use: "well_scoped prog \<Longrightarrow> declared_before_use prog"
  by (auto simp: well_scoped_def declared_before_use_def scoped_program_def scoped_items_strict)




























text \<open>
  Two violations in two statements, \<^verbatim>\<open>a. b.\<close>: both are in the list that
  \<^verbatim>\<open>analyze\<close> raises.
\<close>

lemma two_violations_are_both_reported:
  "analyze_scope (Program [StmtItem (ExprStmt (Identifier ''a'')),
                            StmtItem (ExprStmt (Identifier ''b''))])
     = Inl (ScopeError [UndeclaredVariableAccessed ''a'', UndeclaredVariableAccessed ''b''])"
  by code_simp

section \<open>Properties of the type checker\<close>

lemma check_items_fn_decl:
  "FnDeclItem fd \<in> set its \<Longrightarrow> \<exists>err. check_items tc its = Inl err"
proof (induction its arbitrary: tc)
  case Nil
  then show ?case by simp
next
  case (Cons it its)
  show ?case
  proof (cases "check_item tc it")
    case (Inl err)
    then show ?thesis by simp
  next
    case (Inr tc1)
    then have "it \<noteq> FnDeclItem fd"
      by (auto simp: check_item_def check_fn_decl_def get_function_scope_def)
    with Cons.prems have "FnDeclItem fd \<in> set its" by simp
    then show ?thesis using Cons.IH Inr by simp
  qed
qed

text \<open>
  Claim C1. \<^verbatim>\<open>get_function_scope\<close> never returns a frame: the analyzer has no
  \<^verbatim>\<open>all_scopes\<close>, so the call raises. \<^verbatim>\<open>check_fn_decl\<close> makes that call before it
  looks at a parameter or a statement of the body, so it ends with that exception for
  every declaration, and \<^verbatim>\<open>check_program\<close> ends with an exception for every program
  that holds a function declaration.
\<close>

theorem function_scope_lookup_always_fails:
  "get_function_scope tc fn_name = Inl (AttributeError ''ScopeAnalyzer'' ''all_scopes'')
   \<and> check_fn_decl tc node = Inl (AttributeError ''ScopeAnalyzer'' ''all_scopes'')
   \<and> (FnDeclItem fd \<in> set its \<longrightarrow> (\<exists>err. check_program tc (Program its) = Inl err))"
  by (simp add: get_function_scope_def check_fn_decl_def check_program_def check_items_fn_decl)

text \<open>The program \<^verbatim>\<open>function int f() { }\<close>, checked after its scope analysis.\<close>

theorem function_scope_lookup_always_fails_witness:
  "FnDeclItem (FnDecl ''Int'' ''f'' [] []) \<in> set [FnDeclItem (FnDecl ''Int'' ''f'' [] [])]
   \<and> check_program
        (new_TypeChecker (visit_program new_ScopeAnalyzer
           (Program [FnDeclItem (FnDecl ''Int'' ''f'' [] [])])))
        (Program [FnDeclItem (FnDecl ''Int'' ''f'' [] [])])
       = Inl (AttributeError ''ScopeAnalyzer'' ''all_scopes'')"
proof -
  have "\<exists>err. check_program
        (new_TypeChecker (visit_program new_ScopeAnalyzer
           (Program [FnDeclItem (FnDecl ''Int'' ''f'' [] [])])))
        (Program [FnDeclItem (FnDecl ''Int'' ''f'' [] [])]) = Inl err"
    using function_scope_lookup_always_fails
      [of _ _ _ "FnDecl ''Int'' ''f'' [] []" "[FnDeclItem (FnDecl ''Int'' ''f'' [] [])]"]
    by simp
  then show ?thesis
    by (simp add: check_program_def check_item_def check_fn_decl_def get_function_scope_def)
qed

text \<open>
  Claim C2, evaluated on the program of the specification's example. The tokens of
  \<^verbatim>\<open>function int add(int a, int b) { return a + b }\<close> parse to \<open>prog_add\<close>, whose
  scope analysis finds no error and binds \<open>add\<close> as a function of two parameters.
  Checking \<^verbatim>\<open>add(5)\<close> raises the parameter-count error. Checking \<^verbatim>\<open>add(5, 10)\<close> and
  \<^verbatim>\<open>add(5, true)\<close> raises \<^verbatim>\<open>AttributeError\<close> at the first argument, because
  \<^verbatim>\<open>check_expr\<close> reads \<^verbatim>\<open>type_tok\<close> of a \<^verbatim>\<open>Literal\<close>: no type is returned and no
  parameter is named.
\<close>

theorem call_with_literal_arguments:
  "parse 20 toks_add = Ok prog_add 16
   \<and> analyze_scope prog_add = Inr (visit_program new_ScopeAnalyzer prog_add)
   \<and> check_expr tc_add (Call (Identifier ''add'') [Literal (IntV 5)]) =
       Inl (FnCallParamCount (Expects ''add'' 2 1))
   \<and> check_expr tc_add (Call (Identifier ''add'') [Literal (IntV 5), Literal (IntV 10)]) =
       Inl (AttributeError ''Literal'' ''type_tok'')
   \<and> check_expr tc_add (Call (Identifier ''add'') [Literal (IntV 5), Literal (BoolV True)]) =
       Inl (AttributeError ''Literal'' ''type_tok'')"
  by code_simp

text \<open>
  Claim C3, evaluated on \<^verbatim>\<open>bool b = true\<close> followed by \<^verbatim>\<open>b + b\<close>. The parser tags
  the sum with \<^verbatim>\<open>"AddOp"\<close>; \<^verbatim>\<open>check_expr\<close> compares the tag with \<^verbatim>\<open>"+"\<close>, so the
  arithmetic rule is not applied: the sum of two \<open>Bool\<close> operands checks to
  \<open>Bool\<close> and the whole program passes.
\<close>

theorem parsed_sum_of_bools_is_accepted:
  "parse 20 toks_bool_plus_bool =
     Ok (Program [StmtItem (Var (VarDecl ''Bool'' ''b'' (Some (Literal (BoolV True))))),
                  StmtItem (ExprStmt (Binary ''AddOp'' (Identifier ''b'') (Identifier ''b'')))]) 7
   \<and> typecheck_main 20 toks_bool_plus_bool = TypeCheckPassed"
  by code_simp

text \<open>
  Claim C4, evaluated on \<^verbatim>\<open>int x = true\<close>. The parser wraps the declaration in the
  tuple \<^verbatim>\<open>("Var", VarDecl)\<close>; \<^verbatim>\<open>check_item\<close> tests for a bare \<^verbatim>\<open>VarDecl\<close>, hands
  the tuple to \<^verbatim>\<open>check_stmt\<close>, and no branch there matches it: the program passes.
\<close>

theorem int_x_true_is_accepted:
  "parse 20 toks_int_x_true =
     Ok (Program [StmtItem (Var (VarDecl ''Int'' ''x'' (Some (Literal (BoolV True)))))]) 4
   \<and> typecheck_main 20 toks_int_x_true = TypeCheckPassed"
  by code_simp

text \<open>
  Claim C5, evaluated on \<^verbatim>\<open>function int f() { }\<close>, a function of type \<open>Int\<close> with
  no \<^verbatim>\<open>return\<close>: the check ends with the \<^verbatim>\<open>AttributeError\<close> of
  \<^verbatim>\<open>get_function_scope\<close>, not with \<open>ReturnStmtNotFound\<close>.
\<close>

theorem missing_return_is_not_reported:
  "parse 20 toks_fn_without_return = Ok (Program [FnDeclItem (FnDecl ''Int'' ''f'' [] [])]) 7
   \<and> typecheck_main 20 toks_fn_without_return =
       TypeCheckFailed (AttributeError ''ScopeAnalyzer'' ''all_scopes'')"
  by code_simp

section \<open>Properties of the parser\<close>

lemma pbind_simps [simp]:
  "pbind (Ok v p) f = f v p"
  "pbind (Raise e) f = Raise e"
  "pbind OutOfFuel f = OutOfFuel"
  by (simp_all add: pbind_def)

lemma pbind_eq_Ok:
  "pbind r f = Ok e p \<longleftrightarrow> (\<exists>v q. r = Ok v q \<and> f v q = Ok e p)"
  by (cases r) simp_all

lemma ok_le_refl: "ok_le r r"
  by (simp add: ok_le_def)

lemma ok_le_pbind:
  "ok_le r r' \<Longrightarrow> (\<And>v q. ok_le (f v q) (f' v q)) \<Longrightarrow> ok_le (pbind r f) (pbind r' f')"
  by (auto simp: ok_le_def pbind_eq_Ok)

lemma ok_le_option:
  "(\<And>t. ok_le (f t) (f' t)) \<Longrightarrow> ok_le g g' \<Longrightarrow>
     ok_le (case m of Some t \<Rightarrow> f t | None \<Rightarrow> g) (case m of Some t \<Rightarrow> f' t | None \<Rightarrow> g')"
  by (cases m) simp_all

lemma ok_le_if:
  "(c \<Longrightarrow> ok_le x x') \<Longrightarrow> (\<not> c \<Longrightarrow> ok_le y y') \<Longrightarrow>
     ok_le (if c then x else y) (if c then x' else y')"
  by simp

lemma preservedD: "preserved f a b \<Longrightarrow> ok_le (f a pos) (f b pos)"
  by (simp add: preserved_def)

lemma peek_sim:
  assumes "same_but_stops a b"
  shows "peek b pos = peek a pos \<or>
         (ttype (peek a pos) \<in> set stop_kinds \<and> ttype (peek b pos) \<in> set stop_kinds)"
proof (cases "pos < length a")
  case True
  with assms have "a ! pos = b ! pos \<or>
        (ttype (a ! pos) \<in> set stop_kinds \<and> ttype (b ! pos) \<in> set stop_kinds)"
    unfolding same_but_stops_def by blast
  moreover from assms True have "peek a pos = a ! pos" "peek b pos = b ! pos"
    by (simp_all add: same_but_stops_def peek_def)
  ultimately show ?thesis by auto
next
  case False
  with assms show ?thesis by (simp add: same_but_stops_def peek_def)
qed

lemma peek_sim_kind:
  assumes "same_but_stops a b" and "k \<notin> set stop_kinds"
  shows "(ttype (peek b pos) = k) = (ttype (peek a pos) = k)"
  using peek_sim[OF assms(1), of pos] assms(2) by auto

lemma peek_sim_tok:
  assumes "same_but_stops a b" and "ttype (peek a pos) \<notin> set stop_kinds"
  shows "peek b pos = peek a pos"
  using peek_sim[OF assms(1), of pos] assms(2) by auto

lemma next_tok_sim:
  assumes "same_but_stops a b" and "ttype (peek a pos) \<notin> set stop_kinds"
  shows "next_tok b pos = next_tok a pos"
  using peek_sim_tok[OF assms] by (simp add: next_tok_def)

lemma match_tok_sim:
  assumes "same_but_stops a b" and "set types \<inter> set stop_kinds = {}"
  shows "match_tok types b pos = match_tok types a pos"
proof (cases "ttype (peek a pos) \<in> set stop_kinds")
  case True
  then have "ttype (peek b pos) \<in> set stop_kinds"
    using peek_sim[OF assms(1), of pos] by auto
  with True assms(2) show ?thesis by (auto simp: match_tok_def)
next
  case False
  then show ?thesis
    using peek_sim_tok[OF assms(1) False] next_tok_sim[OF assms(1) False]
    by (simp add: match_tok_def)
qed

lemma expect_sim:
  assumes "same_but_stops a b" and "k \<notin> set stop_kinds"
  shows "ok_le (expect k a pos) (expect k b pos)"
  unfolding ok_le_def
proof (intro allI impI)
  fix t p
  assume ok: "expect k a pos = Ok t p"
  then have k: "ttype (peek a pos) = k"
    by (auto simp: expect_def Let_def split: if_splits)
  with assms(2) have "ttype (peek a pos) \<notin> set stop_kinds" by simp
  then show "expect k b pos = Ok t p"
    using ok peek_sim_tok[OF assms(1)] next_tok_sim[OF assms(1)] k
    by (simp add: expect_def Let_def)
qed

lemma parse_primary_sim:
  assumes S: "same_but_stops a b" and PE: "preserved pe a b"
  shows "ok_le (parse_primary pe a pos) (parse_primary pe b pos)"
proof (cases "ttype (peek a pos) \<in> set stop_kinds")
  case True
  then have "ttype (peek b pos) \<in> set stop_kinds"
    using peek_sim[OF S, of pos] by auto
  with True show ?thesis
    by (auto simp: parse_primary_def Let_def stop_kinds_def ok_le_def)
next
  case False
  have pk: "peek b pos = peek a pos" by (rule peek_sim_tok[OF S False])
  have nx: "next_tok b pos = next_tok a pos" by (rule next_tok_sim[OF S False])
  show ?thesis
    unfolding parse_primary_def Let_def pk nx
    by (intro ok_le_if ok_le_pbind ok_le_refl preservedD[OF PE] expect_sim[OF S])
       (simp add: stop_kinds_def)
qed

lemma args_loop_sim:
  assumes S: "same_but_stops a b" and PE: "preserved pe a b"
  shows "ok_le (args_loop pe n a pos args) (args_loop pe n b pos args)"
proof (induction n arbitrary: pos args)
  case 0
  show ?case by (simp add: ok_le_refl)
next
  case (Suc n)
  have m: "\<And>pos. match_tok [''Comma''] b pos = match_tok [''Comma''] a pos"
    by (rule match_tok_sim[OF S]) (simp add: stop_kinds_def)
  show ?case
    unfolding args_loop.simps m
    by (intro ok_le_pbind ok_le_option ok_le_refl preservedD[OF PE] Suc.IH)
qed

lemma call_loop_sim:
  assumes S: "same_but_stops a b" and PE: "preserved pe a b"
  shows "ok_le (call_loop pe n a pos node) (call_loop pe n b pos node)"
proof (induction n arbitrary: pos node)
  case 0
  show ?case by (simp add: ok_le_refl)
next
  case (Suc n)
  have m: "\<And>pos. match_tok [''ParenL''] b pos = match_tok [''ParenL''] a pos"
    by (rule match_tok_sim[OF S]) (simp add: stop_kinds_def)
  have k: "\<And>pos. (ttype (peek b pos) = ''ParenR'') = (ttype (peek a pos) = ''ParenR'')"
    by (rule peek_sim_kind[OF S]) (simp add: stop_kinds_def)
  show ?case
    unfolding call_loop.simps m k
    by (intro ok_le_pbind ok_le_option ok_le_if ok_le_refl preservedD[OF PE] Suc.IH
          args_loop_sim[OF S PE] expect_sim[OF S])
       (simp add: stop_kinds_def)
qed

lemma parse_call_sim:
  assumes S: "same_but_stops a b" and PE: "preserved pe a b"
  shows "ok_le (parse_call pe n a pos) (parse_call pe n b pos)"
  unfolding parse_call_def
  by (intro ok_le_pbind parse_primary_sim[OF S PE] call_loop_sim[OF S PE])

lemma parse_unary_sim:
  assumes S: "same_but_stops a b" and PE: "preserved pe a b"
  shows "ok_le (parse_unary pe n a pos) (parse_unary pe n b pos)"
proof (induction n arbitrary: pos)
  case 0
  show ?case by (simp add: ok_le_refl)
next
  case (Suc n)
  have m: "\<And>pos. match_tok [''SubOp''] b pos = match_tok [''SubOp''] a pos"
    "\<And>pos. match_tok [''NotOp''] b pos = match_tok [''NotOp''] a pos"
    by (rule match_tok_sim[OF S], simp add: stop_kinds_def)+
  show ?case
    unfolding parse_unary.simps m
    by (intro ok_le_pbind ok_le_option ok_le_refl Suc.IH parse_call_sim[OF S PE])
qed

lemma mul_loop_sim:
  assumes S: "same_but_stops a b" and PE: "preserved pe a b"
  shows "ok_le (mul_loop pe n a pos node) (mul_loop pe n b pos node)"
proof (induction n arbitrary: pos node)
  case 0
  show ?case by (simp add: ok_le_refl)
next
  case (Suc n)
  have m: "\<And>pos. match_tok [''MulOp''] b pos = match_tok [''MulOp''] a pos"
    "\<And>pos. match_tok [''DivOp''] b pos = match_tok [''DivOp''] a pos"
    "\<And>pos. match_tok [''ModOp''] b pos = match_tok [''ModOp''] a pos"
    by (rule match_tok_sim[OF S], simp add: stop_kinds_def)+
  show ?case
    unfolding mul_loop.simps m
    by (intro ok_le_pbind ok_le_option ok_le_refl Suc.IH parse_unary_sim[OF S PE])
qed

lemma parse_mul_sim:
  assumes S: "same_but_stops a b" and PE: "preserved pe a b"
  shows "ok_le (parse_mul pe n a pos) (parse_mul pe n b pos)"
  unfolding parse_mul_def
  by (intro ok_le_pbind parse_unary_sim[OF S PE] mul_loop_sim[OF S PE])

lemma add_loop_sim:
  assumes S: "same_but_stops a b" and PE: "preserved pe a b"
  shows "ok_le (add_loop pe n a pos node) (add_loop pe n b pos node)"
proof (induction n arbitrary: pos node)
  case 0
  show ?case by (simp add: ok_le_refl)
next
  case (Suc n)
  have m: "\<And>pos. match_tok [''AddOp''] b pos = match_tok [''AddOp''] a pos"
    "\<And>pos. match_tok [''SubOp''] b pos = match_tok [''SubOp''] a pos"
    by (rule match_tok_sim[OF S], simp add: stop_kinds_def)+
  show ?case
    unfolding add_loop.simps m
    by (intro ok_le_pbind ok_le_option ok_le_refl Suc.IH parse_mul_sim[OF S PE])
qed

lemma parse_add_sim:
  assumes S: "same_but_stops a b" and PE: "preserved pe a b"
  shows "ok_le (parse_add pe n a pos) (parse_add pe n b pos)"
  unfolding parse_add_def
  by (intro ok_le_pbind parse_mul_sim[OF S PE] add_loop_sim[OF S PE])

lemma comparison_loop_sim:
  assumes S: "same_but_stops a b" and PE: "preserved pe a b"
  shows "ok_le (comparison_loop pe n a pos node) (comparison_loop pe n b pos node)"
proof (induction n arbitrary: pos node)
  case 0
  show ?case by (simp add: ok_le_refl)
next
  case (Suc n)
  have m: "\<And>pos. match_tok [''LessThan''] b pos = match_tok [''LessThan''] a pos"
    "\<And>pos. match_tok [''GreaterThan''] b pos = match_tok [''GreaterThan''] a pos"
    "\<And>pos. match_tok [''LessEq''] b pos = match_tok [''LessEq''] a pos"
    "\<And>pos. match_tok [''GreaterEq''] b pos = match_tok [''GreaterEq''] a pos"
    by (rule match_tok_sim[OF S], simp add: stop_kinds_def)+
  show ?case
    unfolding comparison_loop.simps m
    by (intro ok_le_pbind ok_le_option ok_le_refl Suc.IH parse_add_sim[OF S PE])
qed

lemma parse_comparison_sim:
  assumes S: "same_but_stops a b" and PE: "preserved pe a b"
  shows "ok_le (parse_comparison pe n a pos) (parse_comparison pe n b pos)"
  unfolding parse_comparison_def
  by (intro ok_le_pbind parse_add_sim[OF S PE] comparison_loop_sim[OF S PE])

lemma equality_loop_sim:
  assumes S: "same_but_stops a b" and PE: "preserved pe a b"
  shows "ok_le (equality_loop pe n a pos node) (equality_loop pe n b pos node)"
proof (induction n arbitrary: pos node)
  case 0
  show ?case by (simp add: ok_le_refl)
next
  case (Suc n)
  have m: "\<And>pos. match_tok [''EqualsOp''] b pos = match_tok [''EqualsOp''] a pos"
    "\<And>pos. match_tok [''NotEquals''] b pos = match_tok [''NotEquals''] a pos"
    by (rule match_tok_sim[OF S], simp add: stop_kinds_def)+
  show ?case
    unfolding equality_loop.simps m
    by (intro ok_le_pbind ok_le_option ok_le_refl Suc.IH parse_comparison_sim[OF S PE])
qed

lemma parse_equality_sim:
  assumes S: "same_but_stops a b" and PE: "preserved pe a b"
  shows "ok_le (parse_equality pe n a pos) (parse_equality pe n b pos)"
  unfolding parse_equality_def
  by (intro ok_le_pbind parse_comparison_sim[OF S PE] equality_loop_sim[OF S PE])

lemma logical_and_loop_sim:
  assumes S: "same_but_stops a b" and PE: "preserved pe a b"
  shows "ok_le (logical_and_loop pe n a pos node) (logical_and_loop pe n b pos node)"
proof (induction n arbitrary: pos node)
  case 0
  show ?case by (simp add: ok_le_refl)
next
  case (Suc n)
  have m: "\<And>pos. match_tok [''AndOp''] b pos = match_tok [''AndOp''] a pos"
    by (rule match_tok_sim[OF S], simp add: stop_kinds_def)+
  show ?case
    unfolding logical_and_loop.simps m
    by (intro ok_le_pbind ok_le_option ok_le_refl Suc.IH parse_equality_sim[OF S PE])
qed

lemma parse_logical_and_sim:
  assumes S: "same_but_stops a b" and PE: "preserved pe a b"
  shows "ok_le (parse_logical_and pe n a pos) (parse_logical_and pe n b pos)"
  unfolding parse_logical_and_def
  by (intro ok_le_pbind parse_equality_sim[OF S PE] logical_and_loop_sim[OF S PE])

lemma logical_or_loop_sim:
  assumes S: "same_but_stops a b" and PE: "preserved pe a b"
  shows "ok_le (logical_or_loop pe n a pos node) (logical_or_loop pe n b pos node)"
proof (induction n arbitrary: pos node)
  case 0
  show ?case by (simp add: ok_le_refl)
next
  case (Suc n)
  have m: "\<And>pos. match_tok [''OrOp''] b pos = match_tok [''OrOp''] a pos"
    by (rule match_tok_sim[OF S], simp add: stop_kinds_def)+
  show ?case
    unfolding logical_or_loop.simps m
    by (intro ok_le_pbind ok_le_option ok_le_refl Suc.IH parse_logical_and_sim[OF S PE])
qed

lemma parse_logical_or_sim:
  assumes S: "same_but_stops a b" and PE: "preserved pe a b"
  shows "ok_le (parse_logical_or pe n a pos) (parse_logical_or pe n b pos)"
  unfolding parse_logical_or_def
  by (intro ok_le_pbind parse_logical_and_sim[OF S PE] logical_or_loop_sim[OF S PE])

lemma parse_assignment_sim:
  assumes S: "same_but_stops a b" and PE: "preserved pe a b"
  shows "ok_le (parse_assignment pe n a pos) (parse_assignment pe n b pos)"
proof (induction n arbitrary: pos)
  case 0
  show ?case by (simp add: ok_le_refl)
next
  case (Suc n)
  have m: "\<And>pos. match_tok [''AssignOp''] b pos = match_tok [''AssignOp''] a pos"
    by (rule match_tok_sim[OF S]) (simp add: stop_kinds_def)
  show ?case
    unfolding parse_assignment.simps m
    by (intro ok_le_pbind ok_le_option ok_le_refl Suc.IH parse_logical_or_sim[OF S PE])
qed

lemma parse_expr_sim:
  assumes S: "same_but_stops a b"
  shows "preserved (parse_expr n) a b"
proof (induction n)
  case 0
  show ?case by (simp add: preserved_def ok_le_refl)
next
  case (Suc n)
  show ?case
    unfolding preserved_def parse_expr.simps
    by (intro allI parse_assignment_sim[OF S Suc.IH])
qed


lemma next_tok_exec:
  "ttype (peek toks pos) \<noteq> ''EOF'' \<Longrightarrow> next_tok toks pos = Ok (peek toks pos) (pos + 1)"
  by (simp add: next_tok_def)

lemma match_tok_exec:
  "''EOF'' \<notin> set types \<Longrightarrow>
     match_tok types toks pos =
       (if ttype (peek toks pos) \<in> set types then Ok (Some (peek toks pos)) (pos + 1)
        else Ok None pos)"
  by (auto simp: match_tok_def next_tok_def pbind_def Let_def)

lemma parse_primary_starts:
  "parse_primary pe a pos = Ok e p \<Longrightarrow> ttype (peek a pos) \<notin> set stop_kinds"
  by (auto simp: parse_primary_def Let_def stop_kinds_def split: if_splits)

lemma parse_call_starts:
  "parse_call pe n a pos = Ok e p \<Longrightarrow> ttype (peek a pos) \<notin> set stop_kinds"
  by (auto simp: parse_call_def pbind_eq_Ok dest: parse_primary_starts)

lemma parse_unary_starts:
  "parse_unary pe n a pos = Ok e p \<Longrightarrow> ttype (peek a pos) \<notin> set stop_kinds"
proof (cases n)
  case 0
  then show "parse_unary pe n a pos = Ok e p \<Longrightarrow> ?thesis" by simp
next
  case (Suc m)
  assume "parse_unary pe n a pos = Ok e p"
  then show ?thesis
    unfolding Suc parse_unary.simps
    by (auto simp: match_tok_exec pbind_eq_Ok stop_kinds_def
        split: if_splits option.splits dest: parse_call_starts)
qed

lemma parse_mul_starts:
  "parse_mul pe n a pos = Ok e p \<Longrightarrow> ttype (peek a pos) \<notin> set stop_kinds"
  by (auto simp: parse_mul_def pbind_eq_Ok dest: parse_unary_starts)

lemma parse_add_starts:
  "parse_add pe n a pos = Ok e p \<Longrightarrow> ttype (peek a pos) \<notin> set stop_kinds"
  by (auto simp: parse_add_def pbind_eq_Ok dest: parse_mul_starts)

lemma parse_comparison_starts:
  "parse_comparison pe n a pos = Ok e p \<Longrightarrow> ttype (peek a pos) \<notin> set stop_kinds"
  by (auto simp: parse_comparison_def pbind_eq_Ok dest: parse_add_starts)

lemma parse_equality_starts:
  "parse_equality pe n a pos = Ok e p \<Longrightarrow> ttype (peek a pos) \<notin> set stop_kinds"
  by (auto simp: parse_equality_def pbind_eq_Ok dest: parse_comparison_starts)

lemma parse_logical_and_starts:
  "parse_logical_and pe n a pos = Ok e p \<Longrightarrow> ttype (peek a pos) \<notin> set stop_kinds"
  by (auto simp: parse_logical_and_def pbind_eq_Ok dest: parse_equality_starts)

lemma parse_logical_or_starts:
  "parse_logical_or pe n a pos = Ok e p \<Longrightarrow> ttype (peek a pos) \<notin> set stop_kinds"
  by (auto simp: parse_logical_or_def pbind_eq_Ok dest: parse_logical_and_starts)

lemma parse_assignment_starts:
  "parse_assignment pe n a pos = Ok e p \<Longrightarrow> ttype (peek a pos) \<notin> set stop_kinds"
proof (cases n)
  case 0
  then show "parse_assignment pe n a pos = Ok e p \<Longrightarrow> ?thesis" by simp
next
  case (Suc m)
  assume "parse_assignment pe n a pos = Ok e p"
  then obtain v q where "parse_logical_or pe m a pos = Ok v q"
    unfolding Suc parse_assignment.simps pbind_eq_Ok by blast
  then show ?thesis by (rule parse_logical_or_starts)
qed

lemma parse_expr_starts:
  "parse_expr n a pos = Ok e p \<Longrightarrow> ttype (peek a pos) \<notin> set stop_kinds"
  by (cases n) (auto dest: parse_assignment_starts)

lemma peek_append_at:
  "peek (pre @ t # post) (length pre) = t"
  by (simp add: peek_def)

lemma peek_append_after:
  "peek (pre @ r # xs @ t # post) (Suc (length pre + length xs)) = t"
  by (simp add: peek_def nth_append)

lemma same_but_stops_last:
  assumes "ttype d \<in> set stop_kinds" "ttype d' \<in> set stop_kinds"
  shows "same_but_stops (pre @ r # xs @ d # post) (pre @ r # xs @ d' # post)"
  using assms
  by (auto simp: same_but_stops_def nth_append nth_Cons split: nat.splits)

lemma parse_return_stmt:
  assumes ret: "ttype r = ''Return'' \<or> ttype r = ''wapsi''"
    and e: "parse_expr n toks (Suc pos) = Ok x q"
    and pk: "peek toks pos = r"
  shows "parse_stmt (Suc n) toks pos =
           pbind (match_tok terminators toks q) (\<lambda>m p2. Ok (ReturnStmt (Some x)) p2)"
proof -
  have ns: "ttype (peek toks (Suc pos)) \<notin> set terminators"
    using parse_expr_starts[OF e] by (auto simp: stop_kinds_def terminators_def)
  have nx: "next_tok toks pos = Ok r (Suc pos)"
    using ret pk by (auto simp: next_tok_def)
  show ?thesis
    using ret ns by (auto simp: pk nx e type_kinds_def Let_def)
qed

text \<open>
  A \<^verbatim>\<open>return\<close> with an expression. Let the tokens \<open>xs\<close> be read as the expression
  \<open>x\<close> when they stand after a \<^verbatim>\<open>return\<close> and before a period. Then
  \<^verbatim>\<open>return x.\<close>, \<^verbatim>\<open>return x;\<close> and \<^verbatim>\<open>return x\<close> before a closing brace, in the
  same surroundings, all parse to \<open>ReturnStmt (Some x)\<close>; the period and the semicolon
  are consumed, the brace is left for the enclosing block.
\<close>

theorem return_terminators_interchangeable:
  "(ttype r = ''Return'' \<or> ttype r = ''wapsi'') \<longrightarrow>
   ttype d = ''Dot'' \<longrightarrow> ttype s = ''Semicolon'' \<longrightarrow> ttype c = ''BraceR'' \<longrightarrow>
   parse_expr n (pre @ r # xs @ d # post) (length pre + 1) = Ok x (length pre + 1 + length xs) \<longrightarrow>
     parse_stmt (Suc n) (pre @ r # xs @ d # post) (length pre) =
       Ok (ReturnStmt (Some x)) (length pre + length xs + 2)
   \<and> parse_stmt (Suc n) (pre @ r # xs @ s # post) (length pre) =
       Ok (ReturnStmt (Some x)) (length pre + length xs + 2)
   \<and> parse_stmt (Suc n) (pre @ r # xs @ c # post) (length pre) =
       Ok (ReturnStmt (Some x)) (length pre + length xs + 1)"
proof (intro impI)
  assume ret: "ttype r = ''Return'' \<or> ttype r = ''wapsi''"
    and d: "ttype d = ''Dot''" and s: "ttype s = ''Semicolon''" and c: "ttype c = ''BraceR''"
    and e: "parse_expr n (pre @ r # xs @ d # post) (length pre + 1)
              = Ok x (length pre + 1 + length xs)"
  let ?q = "Suc (length pre + length xs)"
  have ed: "parse_expr n (pre @ r # xs @ d # post) (Suc (length pre)) = Ok x ?q"
    using e by simp
  have kinds: "ttype d \<in> set stop_kinds" "ttype s \<in> set stop_kinds" "ttype c \<in> set stop_kinds"
    using d s c by (simp_all add: stop_kinds_def)
  have es: "parse_expr n (pre @ r # xs @ s # post) (Suc (length pre)) = Ok x ?q"
    using parse_expr_sim[OF same_but_stops_last[OF kinds(1) kinds(2)], of n pre r xs post] ed
    by (simp add: preserved_def ok_le_def)
  have ec: "parse_expr n (pre @ r # xs @ c # post) (Suc (length pre)) = Ok x ?q"
    using parse_expr_sim[OF same_but_stops_last[OF kinds(1) kinds(3)], of n pre r xs post] ed
    by (simp add: preserved_def ok_le_def)
  have "parse_stmt (Suc n) (pre @ r # xs @ d # post) (length pre) =
       Ok (ReturnStmt (Some x)) (length pre + length xs + 2)"
    unfolding parse_return_stmt[OF ret ed peek_append_at]
    using d by (simp add: match_tok_exec terminators_def peek_append_after)
  moreover have "parse_stmt (Suc n) (pre @ r # xs @ s # post) (length pre) =
       Ok (ReturnStmt (Some x)) (length pre + length xs + 2)"
    unfolding parse_return_stmt[OF ret es peek_append_at]
    using s by (simp add: match_tok_exec terminators_def peek_append_after)
  moreover have "parse_stmt (Suc n) (pre @ r # xs @ c # post) (length pre) =
       Ok (ReturnStmt (Some x)) (length pre + length xs + 1)"
    unfolding parse_return_stmt[OF ret ec peek_append_at]
    using c by (simp add: match_tok_exec terminators_def peek_append_after)
  ultimately show "parse_stmt (Suc n) (pre @ r # xs @ d # post) (length pre) =
       Ok (ReturnStmt (Some x)) (length pre + length xs + 2)
   \<and> parse_stmt (Suc n) (pre @ r # xs @ s # post) (length pre) =
       Ok (ReturnStmt (Some x)) (length pre + length xs + 2)
   \<and> parse_stmt (Suc n) (pre @ r # xs @ c # post) (length pre) =
       Ok (ReturnStmt (Some x)) (length pre + length xs + 1)"
    by blast
qed

text \<open>The statement \<^verbatim>\<open>return a + b\<close> inside a block.\<close>

theorem return_terminators_interchangeable_witness:
  "parse_expr 6 ([tk ''BraceL''] @ tk ''Return'' # [ident ''a'', tk ''AddOp'', ident ''b'']
                  @ tk ''Dot'' # [tk ''BraceR'']) (length [tk ''BraceL''] + 1)
     = Ok (Binary ''AddOp'' (Identifier ''a'') (Identifier ''b''))
          (length [tk ''BraceL''] + 1 + length [ident ''a'', tk ''AddOp'', ident ''b''])
   \<and> parse_stmt 7 [tk ''BraceL'', tk ''Return'', ident ''a'', tk ''AddOp'', ident ''b'',
                    tk ''Dot'', tk ''BraceR''] 1
       = Ok (ReturnStmt (Some (Binary ''AddOp'' (Identifier ''a'') (Identifier ''b'')))) 6
   \<and> parse_stmt 7 [tk ''BraceL'', tk ''Return'', ident ''a'', tk ''AddOp'', ident ''b'',
                    tk ''Semicolon'', tk ''BraceR''] 1
       = Ok (ReturnStmt (Some (Binary ''AddOp'' (Identifier ''a'') (Identifier ''b'')))) 6
   \<and> parse_stmt 7 [tk ''BraceL'', tk ''Return'', ident ''a'', tk ''AddOp'', ident ''b'',
                    tk ''BraceR'', tk ''BraceR''] 1
       = Ok (ReturnStmt (Some (Binary ''AddOp'' (Identifier ''a'') (Identifier ''b'')))) 5"
proof -
  have h: "parse_expr 6 ([tk ''BraceL''] @ tk ''Return'' # [ident ''a'', tk ''AddOp'', ident ''b'']
                  @ tk ''Dot'' # [tk ''BraceR'']) (length [tk ''BraceL''] + 1)
     = Ok (Binary ''AddOp'' (Identifier ''a'') (Identifier ''b''))
          (length [tk ''BraceL''] + 1 + length [ident ''a'', tk ''AddOp'', ident ''b''])"
    by code_simp
  have k: "ttype (tk ''Return'') = ''Return'' \<or> ttype (tk ''Return'') = ''wapsi''"
    "ttype (tk ''Dot'') = ''Dot''" "ttype (tk ''Semicolon'') = ''Semicolon''"
    "ttype (tk ''BraceR'') = ''BraceR''"
    by (simp_all add: tk_def)
  show ?thesis
    using h k
      return_terminators_interchangeable
        [of "tk ''Return''" "tk ''Dot''" "tk ''Semicolon''" "tk ''BraceR''" 6
            "[tk ''BraceL'']" "[ident ''a'', tk ''AddOp'', ident ''b'']" "[tk ''BraceR'']"
            "Binary ''AddOp'' (Identifier ''a'') (Identifier ''b'')"]
    by (simp add: eval_nat_numeral)
qed


text \<open>
  Claim C9, evaluated where the terminators are not interchangeable. After a bare
  \<^verbatim>\<open>return\<close> the parser accepts a period or a semicolon and gives
  \<open>ReturnStmt None\<close>, but before a closing brace it goes on to \<^verbatim>\<open>parse_expr\<close> and
  raises \<open>ExpectedExpr\<close>, so \<^verbatim>\<open>function int f() { return }\<close> does not parse, while a
  bare \<^verbatim>\<open>break\<close> before the brace does. In the header of a \<^verbatim>\<open>for\<close> an empty
  clause is recognised by a period only: \<^verbatim>\<open>for (. .) { }\<close> parses and
  \<^verbatim>\<open>for (; ;) { }\<close> raises \<open>ExpectedExpr\<close>.
\<close>

theorem bare_return_needs_a_terminator:
  "parse_stmt 6 [tk ''Return'', tk ''Dot'', tk ''BraceR''] 0 = Ok (ReturnStmt None) 2
   \<and> parse_stmt 6 [tk ''Return'', tk ''Semicolon'', tk ''BraceR''] 0 = Ok (ReturnStmt None) 2
   \<and> parse_stmt 6 [tk ''Return'', tk ''BraceR''] 0 = Raise (ExpectedExpr ''BraceR'' None)
   \<and> parse 12 [tk ''Function'', tk ''Int'', ident ''f'', tk ''ParenL'', tk ''ParenR'',
               tk ''BraceL'', tk ''Return'', tk ''BraceR'', tk ''EOF'']
       = Raise (ExpectedExpr ''BraceR'' None)
   \<and> parse_stmt 6 [tk ''Break'', tk ''BraceR''] 0 = Ok BreakStmt 1
   \<and> parse_stmt 8 [tk ''For'', tk ''ParenL'', tk ''Dot'', tk ''Dot'', tk ''ParenR'',
                    tk ''BraceL'', tk ''BraceR''] 0 = Ok (ForStmt None None None []) 7
   \<and> parse_stmt 8 [tk ''For'', tk ''ParenL'', tk ''Semicolon'', tk ''Semicolon'', tk ''ParenR'',
                    tk ''BraceL'', tk ''BraceR''] 0 = Raise (ExpectedExpr ''Semicolon'' None)"
  by code_simp


lemma pbind_eq_OutOfFuel:
  "pbind r f = OutOfFuel \<longleftrightarrow> r = OutOfFuel \<or> (\<exists>v q. r = Ok v q \<and> f v q = OutOfFuel)"
  by (cases r) simp_all








































subsection \<open>Progress and termination\<close>








lemma prim_fuel [simp]:
  "next_tok toks pos \<noteq> OutOfFuel"
  "match_tok types toks pos \<noteq> OutOfFuel"
  "expect ty toks pos \<noteq> OutOfFuel"
  "expect_identifier toks pos \<noteq> OutOfFuel"
  by (auto simp: next_tok_def match_tok_def expect_def expect_identifier_def Let_def
        pbind_eq_OutOfFuel)























































lemma assignment_result_fuel [simp]:
  "(case left of Identifier name \<Rightarrow> Ok (Binary ''AssignOp'' left right) p2
               | _ \<Rightarrow> Raise UnexpectedToken) \<noteq> OutOfFuel"
  by (cases left) auto


















end
